theory Spec2Isabelle
  imports Main "HOL-Library.Sublist"
begin

section \<open>JavaScript values\<close>

text \<open>
  A thrown value as the handlers inspect it: whether it is an \<^verbatim>\<open>Error\<close> instance
  (\<^verbatim>\<open>error instanceof Error\<close>), its \<^verbatim>\<open>error.message\<close> and, for errors that carry a
  response body (the API errors of the vendor SDKs), \<^verbatim>\<open>error.error.message\<close>.
  \<^verbatim>\<open>new Error(m)\<close> is \<open>Error m\<close>.
\<close>

datatype js_error =
  JSError (instanceofError: bool) (message: "string option") (error_message: "string option")

abbreviation Error :: "string \<Rightarrow> js_error" where
  "Error m \<equiv> JSError True (Some m) None"

text \<open>
  \<^verbatim>\<open>`${error}`\<close> for an \<^verbatim>\<open>Error\<close> instance named \<^verbatim>\<open>Error\<close>: the name, then the message
  when it is not empty.
\<close>

definition error_toString :: "js_error \<Rightarrow> string" where
  "error_toString e =
     (case message e of
        None \<Rightarrow> ''Error''
      | Some m \<Rightarrow> if m = [] then ''Error'' else ''Error: '' @ m)"

text \<open>\<^verbatim>\<open>error.message\<close> inside a string concatenation: a missing message prints as
  \<^verbatim>\<open>undefined\<close>.\<close>

definition message_text :: "js_error \<Rightarrow> string" where
  "message_text e = (case message e of None \<Rightarrow> ''undefined'' | Some m \<Rightarrow> m)"

text \<open>A non-negative integer inside a template literal, and \<^verbatim>\<open>n.toString()\<close>: decimal digits.\<close>

definition digit_char :: "nat \<Rightarrow> char" where
  "digit_char d = ''0123456789'' ! d"

function string_of_nat :: "nat \<Rightarrow> string" where
  "string_of_nat n =
     (if n < 10 then [digit_char n] else string_of_nat (n div 10) @ [digit_char (n mod 10)])"
  by pat_completeness auto
termination
  by (relation "measure id") auto

declare string_of_nat.simps [simp del]

text \<open>\<^verbatim>\<open>path.join(a, b)\<close> on the POSIX platforms the recording tools exist on, for
  operands that need no normalisation.\<close>

definition path_join :: "string \<Rightarrow> string \<Rightarrow> string" where
  "path_join a b = a @ ''/'' @ b"

section \<open>JSON values and the responses of the providers\<close>

text \<open>
  A value \<^verbatim>\<open>JSON.parse\<close> returns. A number is kept as its lexeme; an object keeps its
  members in source order, and a property read finds the last member of that name.
\<close>

datatype json =
  JNull
| JBool bool
| JNumber string
| JString string
| JArray "json list"
| JObject "(string \<times> json) list"

text \<open>\<^verbatim>\<open>v.k\<close> for a value \<open>v\<close> that is not \<^verbatim>\<open>null\<close>; \<open>None\<close> is \<^verbatim>\<open>undefined\<close>.\<close>

fun js_field :: "json \<Rightarrow> string \<Rightarrow> json option" where
  "js_field (JObject kvs) k = map_of (rev kvs) k"
| "js_field v k = None"

definition number_nonzero :: "string \<Rightarrow> bool" where
  "number_nonzero lexeme =
     list_ex (\<lambda>c. c \<in> set ''123456789'')
       (takeWhile (\<lambda>c. c \<noteq> CHR ''e'' \<and> c \<noteq> CHR ''E'') lexeme)"

text \<open>Truthiness, as \<^verbatim>\<open>!v\<close> and \<^verbatim>\<open>v || d\<close> test it.\<close>

fun js_truthy :: "json option \<Rightarrow> bool" where
  "js_truthy None = False"
| "js_truthy (Some JNull) = False"
| "js_truthy (Some (JBool b)) = b"
| "js_truthy (Some (JNumber lexeme)) = number_nonzero lexeme"
| "js_truthy (Some (JString s)) = (s \<noteq> [])"
| "js_truthy (Some (JArray vs)) = True"
| "js_truthy (Some (JObject kvs)) = True"

text \<open>The part of a Gemini response the code reads:
  \<^verbatim>\<open>response.candidates?.[0]?.content?.parts?.[0]?.text\<close>.\<close>

datatype part = Part (part_text: "string option")

datatype content = Content (parts: "part list option")

datatype candidate = Candidate (content: "content option")

datatype gen_response = GenerateContentResponse (candidates: "candidate list option")

definition first_part_text :: "gen_response \<Rightarrow> string option" where
  "first_part_text r =
     (case candidates r of
        Some (c # cs) \<Rightarrow>
          (case content c of
             Some ct \<Rightarrow>
               (case parts ct of
                  Some (p # ps) \<Rightarrow> part_text p
                | _ \<Rightarrow> None)
           | None \<Rightarrow> None)
      | _ \<Rightarrow> None)"

text \<open>\<^verbatim>\<open>response.candidates?.[0]?.content?.parts?.[0]?.text || ''\<close>\<close>

definition response_text :: "gen_response \<Rightarrow> string" where
  "response_text r = (case first_part_text r of Some t \<Rightarrow> t | None \<Rightarrow> [])"

text \<open>A response whose first candidate's first part carries the text \<open>t\<close>.\<close>

definition text_response :: "string \<Rightarrow> gen_response" where
  "text_response t = GenerateContentResponse (Some [Candidate (Some (Content (Some [Part (Some t)])))])"

section \<open>A model of \<^verbatim>\<open>JSON.parse\<close>\<close>

text \<open>
  \<^verbatim>\<open>JSON.parse\<close> belongs to the JavaScript runtime, not to the repository. The adapters
  below take it as a parameter; \<open>JSON_parse\<close> is a model of it for the concrete texts. It
  follows the JSON grammar (objects, arrays, strings with the single-character escapes,
  numbers, \<^verbatim>\<open>true\<close>, \<^verbatim>\<open>false\<close>, \<^verbatim>\<open>null\<close>, white space) and rejects everything else; a
  \<^verbatim>\<open>\u\<close> escape is outside it and is rejected too.
\<close>

definition json_ws :: "char \<Rightarrow> bool" where
  "json_ws c = (c \<in> set [CHR '' '', CHR 0x09, CHR 0x0A, CHR 0x0D])"

definition skip_ws :: "string \<Rightarrow> string" where
  "skip_ws s = dropWhile json_ws s"

definition is_digit :: "char \<Rightarrow> bool" where
  "is_digit c = (c \<in> set ''0123456789'')"

definition unescape :: "char \<Rightarrow> char option" where
  "unescape e =
     (if e = CHR 0x22 then Some (CHR 0x22)
      else if e = CHR 0x5C then Some (CHR 0x5C)
      else if e = CHR ''/'' then Some (CHR ''/'')
      else if e = CHR ''b'' then Some (CHR 0x08)
      else if e = CHR ''f'' then Some (CHR 0x0C)
      else if e = CHR ''n'' then Some (CHR 0x0A)
      else if e = CHR ''r'' then Some (CHR 0x0D)
      else if e = CHR ''t'' then Some (CHR 0x09)
      else None)"

text \<open>The characters of a string after its opening quote, up to the closing quote.\<close>

fun parse_chars :: "string \<Rightarrow> (string \<times> string) option" where
  "parse_chars [] = None"
| "parse_chars (c # cs) =
     (if c = CHR 0x22 then Some ([], cs)
      else if c = CHR 0x5C then
        (case cs of
           [] \<Rightarrow> None
         | e # rest \<Rightarrow>
             (case unescape e of
                None \<Rightarrow> None
              | Some ch \<Rightarrow>
                  (case parse_chars rest of
                     None \<Rightarrow> None
                   | Some (str, r) \<Rightarrow> Some (ch # str, r))))
      else if (of_char c :: nat) < 32 then None
      else
        (case parse_chars cs of
           None \<Rightarrow> None
         | Some (str, r) \<Rightarrow> Some (c # str, r)))"

text \<open>A number: optional minus, integer part without a leading zero, optional fraction,
  optional exponent. The lexeme and the rest.\<close>

definition span_digits :: "string \<Rightarrow> string \<times> string" where
  "span_digits s = (takeWhile is_digit s, dropWhile is_digit s)"

definition parse_frac :: "string \<Rightarrow> (string \<times> string) option" where
  "parse_frac s =
     (case s of
        [] \<Rightarrow> Some ([], s)
      | c # r \<Rightarrow>
          if c = CHR ''.'' then
            (case span_digits r of
               (ds, r1) \<Rightarrow> if ds = [] then None else Some (c # ds, r1))
          else Some ([], s))"

definition parse_exp :: "string \<Rightarrow> (string \<times> string) option" where
  "parse_exp s =
     (case s of
        [] \<Rightarrow> Some ([], s)
      | c # r \<Rightarrow>
          if c = CHR ''e'' \<or> c = CHR ''E'' then
            (case (case r of
                     [] \<Rightarrow> ([], r)
                   | d # r1 \<Rightarrow> if d = CHR ''+'' \<or> d = CHR ''-'' then ([d], r1) else ([], r)) of
               (sg, r2) \<Rightarrow>
                 (case span_digits r2 of
                    (ds, r3) \<Rightarrow> if ds = [] then None else Some (c # sg @ ds, r3)))
          else Some ([], s))"

definition parse_number :: "string \<Rightarrow> (string \<times> string) option" where
  "parse_number s =
     (case (case s of
              [] \<Rightarrow> ([], s)
            | c # r \<Rightarrow> if c = CHR ''-'' then ([c], r) else ([], s)) of
        (neg, s1) \<Rightarrow>
          (case span_digits s1 of
             (int_part, s2) \<Rightarrow>
               if int_part = [] \<or> (length int_part > 1 \<and> hd int_part = CHR ''0'') then None
               else
                 (case parse_frac s2 of
                    None \<Rightarrow> None
                  | Some (frac, s3) \<Rightarrow>
                      (case parse_exp s3 of
                         None \<Rightarrow> None
                       | Some (ex, s4) \<Rightarrow> Some (neg @ int_part @ frac @ ex, s4)))))"

text \<open>
  Values, the elements of an array after its opening bracket, and the members of an
  object after its opening brace. The first argument bounds the nesting of the calls, each
  call taking one element off it; \<open>JSON_parse\<close> passes the text itself, one element longer,
  and every call that goes deeper has read at least one character.
\<close>

fun parse_value :: "'a list \<Rightarrow> string \<Rightarrow> (json \<times> string) option"
  and parse_elements :: "'a list \<Rightarrow> string \<Rightarrow> (json list \<times> string) option"
  and parse_members :: "'a list \<Rightarrow> string \<Rightarrow> ((string \<times> json) list \<times> string) option" where
  "parse_value [] s = None"
| "parse_value (f # fuel) s =
     (case skip_ws s of
        [] \<Rightarrow> None
      | c # r \<Rightarrow>
          if c = CHR ''{'' then
            (case skip_ws r of
               [] \<Rightarrow> None
             | d # r1 \<Rightarrow>
                 if d = CHR ''}'' then Some (JObject [], r1)
                 else
                   (case parse_members fuel (d # r1) of
                      None \<Rightarrow> None
                    | Some (kvs, r2) \<Rightarrow> Some (JObject kvs, r2)))
          else if c = CHR ''['' then
            (case skip_ws r of
               [] \<Rightarrow> None
             | d # r1 \<Rightarrow>
                 if d = CHR '']'' then Some (JArray [], r1)
                 else
                   (case parse_elements fuel (d # r1) of
                      None \<Rightarrow> None
                    | Some (vs, r2) \<Rightarrow> Some (JArray vs, r2)))
          else if c = CHR 0x22 then
            (case parse_chars r of
               None \<Rightarrow> None
             | Some (str, r1) \<Rightarrow> Some (JString str, r1))
          else if take 4 (c # r) = ''true'' then Some (JBool True, drop 4 (c # r))
          else if take 5 (c # r) = ''false'' then Some (JBool False, drop 5 (c # r))
          else if take 4 (c # r) = ''null'' then Some (JNull, drop 4 (c # r))
          else
            (case parse_number (c # r) of
               None \<Rightarrow> None
             | Some (lexeme, r1) \<Rightarrow> Some (JNumber lexeme, r1)))"
| "parse_elements [] s = None"
| "parse_elements (f # fuel) s =
     (case parse_value fuel s of
        None \<Rightarrow> None
      | Some (v, r) \<Rightarrow>
          (case skip_ws r of
             [] \<Rightarrow> None
           | c # r1 \<Rightarrow>
               if c = CHR '','' then
                 (case parse_elements fuel r1 of
                    None \<Rightarrow> None
                  | Some (vs, r2) \<Rightarrow> Some (v # vs, r2))
               else if c = CHR '']'' then Some ([v], r1)
               else None))"
| "parse_members [] s = None"
| "parse_members (f # fuel) s =
     (case skip_ws s of
        [] \<Rightarrow> None
      | q # r \<Rightarrow>
          if q \<noteq> CHR 0x22 then None
          else
            (case parse_chars r of
               None \<Rightarrow> None
             | Some (k, r1) \<Rightarrow>
                 (case skip_ws r1 of
                    [] \<Rightarrow> None
                  | c # r2 \<Rightarrow>
                      if c \<noteq> CHR '':'' then None
                      else
                        (case parse_value fuel r2 of
                           None \<Rightarrow> None
                         | Some (v, r3) \<Rightarrow>
                             (case skip_ws r3 of
                                [] \<Rightarrow> None
                              | d # r4 \<Rightarrow>
                                  if d = CHR '','' then
                                    (case parse_members fuel r4 of
                                       None \<Rightarrow> None
                                     | Some (kvs, r5) \<Rightarrow> Some ((k, v) # kvs, r5))
                                  else if d = CHR ''}'' then Some ([(k, v)], r4)
                                  else None)))))"

definition JSON_parse :: "string \<Rightarrow> json option" where
  "JSON_parse s =
     (case parse_value (CHR ''x'' # s) s of
        None \<Rightarrow> None
      | Some (v, r) \<Rightarrow> if skip_ws r = [] then Some v else None)"

text \<open>\<^verbatim>\<open>JSON.parse\<close> as the adapters call it: a text that is not JSON throws a
  \<^verbatim>\<open>SyntaxError\<close>. Its message is the engine's own; the one here stands for it.\<close>

definition JSON_parse_or_throw :: "string \<Rightarrow> js_error + json" where
  "JSON_parse_or_throw s =
     (case JSON_parse s of
        None \<Rightarrow> Inl (Error ''Unexpected token in JSON'')
      | Some v \<Rightarrow> Inr v)"

section \<open>The image-solving adapters (\<^verbatim>\<open>services/gemini.ts\<close>, \<^verbatim>\<open>services/openai.ts\<close>)\<close>

text \<open>
  \<^verbatim>\<open>text.match(/\{[\s\S]*\}/)\<close>: the leftmost match of a greedy pattern, which runs from the
  first opening brace of the text to the last closing brace after it; no match when there
  is no such pair.
\<close>

definition match_braces :: "string \<Rightarrow> string option" where
  "match_braces s =
     (case dropWhile (\<lambda>c. c \<noteq> CHR ''{'') s of
        [] \<Rightarrow> None
      | b # u \<Rightarrow>
          (case dropWhile (\<lambda>c. c \<noteq> CHR ''}'') (rev u) of
             [] \<Rightarrow> None
           | e # v \<Rightarrow> Some (b # rev (e # v))))"

text \<open>What each service throws at its first line when its SDK client has not been
  created (\<^verbatim>\<open>if (!genAI)\<close>, \<^verbatim>\<open>if (!openai)\<close>).\<close>

definition genAI_not_initialized :: js_error where
  "genAI_not_initialized =
     Error ''Google AI client not initialized. Please configure your API key.''"

definition openai_not_initialized :: js_error where
  "openai_not_initialized =
     Error (''OpenAI client not initialized. Please configure API key first. ''
            @ ''Click CTRL/CMD + P to open settings and set the API key.'')"

text \<open>The \<^verbatim>\<open>catch\<close> block of \<^verbatim>\<open>processImages\<close> (\<^verbatim>\<open>services/gemini.ts\<close>).\<close>

definition processImages_catch :: "js_error \<Rightarrow> js_error" where
  "processImages_catch error =
     (if instanceofError error then Error (''Gemini processing failed: '' @ message_text error)
      else Error ''Unknown error occurred during Gemini processing'')"

text \<open>
  The \<^verbatim>\<open>try\<close> block of \<^verbatim>\<open>processImages\<close> from the raw text on: the span is extracted and
  parsed, the four fields of the parsed value are tested for truthiness, and an object of
  the four is returned. Reading a property of \<^verbatim>\<open>null\<close> throws a \<^verbatim>\<open>TypeError\<close>.
\<close>

definition processImages_text :: "(string \<Rightarrow> js_error + json) \<Rightarrow> string \<Rightarrow> js_error + json" where
  "processImages_text parse txt =
     (case match_braces txt of
        None \<Rightarrow> Inl (Error ''Could not extract JSON from Gemini response'')
      | Some jsonMatch \<Rightarrow>
          (case parse jsonMatch of
             Inl e \<Rightarrow> Inl e
           | Inr parsedResponse \<Rightarrow>
               if parsedResponse = JNull then Inl (Error ''Cannot read properties of null'')
               else if \<not> js_truthy (js_field parsedResponse ''approach'')
                    \<or> \<not> js_truthy (js_field parsedResponse ''code'')
                    \<or> \<not> js_truthy (js_field parsedResponse ''timeComplexity'')
                    \<or> \<not> js_truthy (js_field parsedResponse ''spaceComplexity'')
               then Inl (Error ''Invalid response structure from Gemini'')
               else Inr (JObject
                     [(''approach'', the (js_field parsedResponse ''approach'')),
                      (''code'', the (js_field parsedResponse ''code'')),
                      (''timeComplexity'', the (js_field parsedResponse ''timeComplexity'')),
                      (''spaceComplexity'', the (js_field parsedResponse ''spaceComplexity''))])))"

text \<open>\<^verbatim>\<open>processImages\<close>: \<open>genAI\<close> says whether the client is initialised, \<open>reply\<close> is what
  \<^verbatim>\<open>generateContent\<close> gave (the value it threw, or the response).\<close>

definition processImages ::
  "(string \<Rightarrow> js_error + json) \<Rightarrow> bool \<Rightarrow> js_error + gen_response \<Rightarrow> js_error + json" where
  "processImages parse genAI reply =
     (if \<not> genAI then Inl genAI_not_initialized
      else
        case (case reply of
                Inl e \<Rightarrow> Inl e
              | Inr response \<Rightarrow> processImages_text parse (response_text response)) of
          Inl error \<Rightarrow> Inl (processImages_catch error)
        | Inr solution \<Rightarrow> Inr solution)"

text \<open>
  \<^verbatim>\<open>processScreenshots\<close> (\<^verbatim>\<open>services/openai.ts\<close>): \<open>openai\<close> says whether the client is
  initialised, \<open>reply\<close> is what reading the files and \<^verbatim>\<open>chat.completions.create\<close> gave
  (the value thrown, or \<^verbatim>\<open>response.choices[0].message.content\<close>, \<open>None\<close> for \<^verbatim>\<open>null\<close>). The
  request asks for \<^verbatim>\<open>response_format: { type: "json_object" }\<close>; the content is parsed whole
  and returned as it is, and the \<^verbatim>\<open>catch\<close> block rethrows.
\<close>

definition processScreenshots ::
  "(string \<Rightarrow> js_error + json) \<Rightarrow> bool \<Rightarrow> js_error + string option \<Rightarrow> js_error + json" where
  "processScreenshots parse openai reply =
     (if \<not> openai then Inl openai_not_initialized
      else
        case reply of
          Inl e \<Rightarrow> Inl e
        | Inr messageContent \<Rightarrow>
            parse (case messageContent of None \<Rightarrow> ''{}'' | Some c \<Rightarrow> if c = [] then ''{}'' else c))"

text \<open>
  Written after the words of the spec, to compare \<open>match_braces\<close> with: ``the first balanced
  \<^verbatim>\<open>{...}\<close> span in the raw text'', from the first opening brace to the closing brace that
  matches it.
\<close>

fun balanced_rest :: "nat \<Rightarrow> string \<Rightarrow> string option" where
  "balanced_rest depth [] = None"
| "balanced_rest depth (c # cs) =
     (if c = CHR ''}'' then
        (if depth = 0 then Some [c] else map_option ((#) c) (balanced_rest (depth - 1) cs))
      else if c = CHR ''{'' then map_option ((#) c) (balanced_rest (depth + 1) cs)
      else map_option ((#) c) (balanced_rest depth cs))"

definition spec_first_balanced_span :: "string \<Rightarrow> string option" where
  "spec_first_balanced_span s =
     (case dropWhile (\<lambda>c. c \<noteq> CHR ''{'') s of
        [] \<Rightarrow> None
      | b # u \<Rightarrow> map_option ((#) b) (balanced_rest 0 u))"

section \<open>The audio recorder service (\<^verbatim>\<open>services/audioRecorder.ts\<close>)\<close>

record AudioRecorderConfig =
  deviceId :: string
  sampleRate :: nat
  channels :: nat

text \<open>
  The fields of \<^verbatim>\<open>class AudioRecorderService\<close>. The spawned subprocess is kept as the
  command line it was started with. The source's field \<^verbatim>\<open>config\<close> is \<open>recorderConfig\<close>
  here (the main process has a \<^verbatim>\<open>config\<close> of its own).
\<close>

record AudioRecorderService =
  isRecording :: bool
  recordingProcess :: "(string \<times> string list) option"
  outputPath :: string
  questionCounter :: nat
  recorderConfig :: AudioRecorderConfig

definition new_AudioRecorderService :: AudioRecorderService where
  "new_AudioRecorderService =
     \<lparr> isRecording = False, recordingProcess = None, outputPath = [], questionCounter = 1,
       recorderConfig = \<lparr> deviceId = ''default'', sampleRate = 16000, channels = 1 \<rparr> \<rparr>"

text \<open>
  What the operating system answers to one recorder operation: the user-data directory,
  which of the recording tools \<^verbatim>\<open>which\<close> finds, whether the recording subprocess emits
  \<^verbatim>\<open>'close'\<close> after \<^verbatim>\<open>stopRecording\<close> has attached its listener, and what
  \<^verbatim>\<open>fs.stat(outputPath)\<close> gives then (an error when the file is missing, its size
  otherwise). \<^verbatim>\<open>stopRecording\<close> attaches the listener only after \<^verbatim>\<open>kill('SIGINT')\<close>: a tool
  that is running closes on the signal and the listener sees it; a tool that had already
  exited (it could not open the device, say) has emitted its \<^verbatim>\<open>'close'\<close> before, and the
  listener is never called. The probes of \<^verbatim>\<open>checkRecordingCapability\<close> and \<^verbatim>\<open>fs.stat\<close> are
  taken to settle; each recorder operation is one uninterrupted run from its call to its
  return, when it returns.
\<close>

record recorder_env =
  userData :: string
  which_found :: "string \<Rightarrow> bool"
  close_after_kill :: bool
  stat_outputPath :: "js_error + nat"

fun first_found :: "(string \<Rightarrow> bool) \<Rightarrow> string list \<Rightarrow> string option" where
  "first_found found [] = None"
| "first_found found (cmd # cmds) = (if found cmd then Some cmd else first_found found cmds)"

definition checkRecordingCapability :: "recorder_env \<Rightarrow> js_error + string" where
  "checkRecordingCapability env =
     (case first_found (which_found env) [''arecord'', ''sox'', ''ffmpeg''] of
        Some cmd \<Rightarrow> Inr cmd
      | None \<Rightarrow>
          Inl (Error ''No audio recording tool found. Please install arecord, sox, or ffmpeg.''))"

definition recording_args :: "string \<Rightarrow> AudioRecorderConfig \<Rightarrow> string \<Rightarrow> string list" where
  "recording_args recordingTool cfg out =
     (if recordingTool = ''arecord'' then
        [''-f'', ''cd'', ''-t'', ''wav'', ''-c'', string_of_nat (channels cfg),
         ''-r'', string_of_nat (sampleRate cfg), out]
      else if recordingTool = ''sox'' then
        [''-d'', ''-t'', ''wav'', ''-c'', string_of_nat (channels cfg),
         ''-r'', string_of_nat (sampleRate cfg), out]
      else if recordingTool = ''ffmpeg'' then
        [''-f'', ''pulse'', ''-i'', ''default'', ''-ac'', string_of_nat (channels cfg),
         ''-ar'', string_of_nat (sampleRate cfg), ''-acodec'', ''pcm_s16le'', out]
      else [])"

definition question_path :: "recorder_env \<Rightarrow> nat \<Rightarrow> string" where
  "question_path env n =
     path_join (path_join (userData env) ''recordings'')
       (''question-'' @ string_of_nat n @ ''.wav'')"

definition startRecording ::
  "recorder_env \<Rightarrow> AudioRecorderService \<Rightarrow> (js_error + string) \<times> AudioRecorderService" where
  "startRecording env r =
     (if isRecording r then (Inl (Error ''Already recording''), r)
      else
        let r1 = r\<lparr>outputPath := question_path env (questionCounter r)\<rparr> in
        case checkRecordingCapability env of
          Inl e \<Rightarrow>
            (Inl (Error (''Failed to start recording: '' @ error_toString e)),
             r1\<lparr>isRecording := False\<rparr>)
        | Inr recordingTool \<Rightarrow>
            (Inr (outputPath r1),
             r1\<lparr>recordingProcess :=
                   Some (recordingTool,
                         recording_args recordingTool (recorderConfig r1) (outputPath r1)),
                 isRecording := True\<rparr>))"

text \<open>The check of the finished file inside \<^verbatim>\<open>stopRecording\<close>: the inner \<^verbatim>\<open>try\<close>.\<close>

definition verify_recording :: "recorder_env \<Rightarrow> js_error + unit" where
  "verify_recording env =
     (case (case stat_outputPath env of
              Inl e \<Rightarrow> Inl e
            | Inr sz \<Rightarrow> if sz = 0 then Inl (Error ''Recording file is empty'') else Inr ()) of
        Inl e \<Rightarrow> Inl (Error (''Recording file was not created properly: '' @ error_toString e))
      | Inr u \<Rightarrow> Inr u)"

text \<open>
  \<^verbatim>\<open>stopRecording\<close>. The result is \<open>None\<close> when the returned promise never settles: the
  recorder holds a subprocess and the awaited \<^verbatim>\<open>'close'\<close> does not come. The run is then
  suspended for good after \<^verbatim>\<open>isRecording = false\<close> and the signal, before
  \<^verbatim>\<open>recordingProcess = null\<close> and the check of the file.
\<close>

definition stopRecording ::
  "recorder_env \<Rightarrow> AudioRecorderService
     \<Rightarrow> (js_error + string) option \<times> AudioRecorderService" where
  "stopRecording env r =
     (if \<not> isRecording r then (Some (Inl (Error ''Not currently recording'')), r)
      else
        let r1 = r\<lparr>isRecording := False\<rparr> in
        if recordingProcess r1 \<noteq> None \<and> \<not> close_after_kill env then (None, r1)
        else
          let r2 = (case recordingProcess r1 of
                      None \<Rightarrow> r1
                    | Some p \<Rightarrow> r1\<lparr>recordingProcess := None\<rparr>)
          in
          case verify_recording env of
            Inl e \<Rightarrow>
              (Some (Inl (Error (''Failed to stop recording: '' @ error_toString e))),
               r2\<lparr>isRecording := False\<rparr>)
          | Inr u \<Rightarrow>
              (Some (Inr (outputPath r2)), r2\<lparr>questionCounter := questionCounter r2 + 1\<rparr>))"

text \<open>\<^verbatim>\<open>toggleRecording\<close> returns the promise of the operation it chose; that of
  \<^verbatim>\<open>startRecording\<close> always settles.\<close>

definition toggleRecording ::
  "recorder_env \<Rightarrow> AudioRecorderService
     \<Rightarrow> (js_error + string) option \<times> AudioRecorderService" where
  "toggleRecording env r =
     (if isRecording r then stopRecording env r
      else case startRecording env r of (res, r') \<Rightarrow> (Some res, r'))"

definition getRecordingStatus :: "AudioRecorderService \<Rightarrow> bool" where
  "getRecordingStatus r = isRecording r"

text \<open>What \<^verbatim>\<open>stopRecording\<close> rejects: \<^verbatim>\<open>fs.stat\<close> throws (no file) or reports size 0.\<close>

definition file_missing_or_empty :: "recorder_env \<Rightarrow> bool" where
  "file_missing_or_empty env = (case stat_outputPath env of Inl e \<Rightarrow> True | Inr sz \<Rightarrow> sz = 0)"

section \<open>The main process (\<^verbatim>\<open>main.ts\<close>): state, events, provider calls\<close>

record Screenshot =
  screenshot_id :: nat
  preview :: string
  path :: string

text \<open>\<^verbatim>\<open>type InterviewType = 'algorithmic' | 'frontend' | 'java-microservices'\<close>
  (\<^verbatim>\<open>services/promptFactory.ts\<close>); \<^verbatim>\<open>getPrompt\<close> has a prompt for each of the three.\<close>

datatype InterviewType = algorithmic | frontend | java_microservices

record Config =
  provider :: string
  openaiApiKey :: string
  geminiApiKey :: string
  language :: string
  model :: string
  audioDeviceId :: string
  interviewType :: InterviewType

text \<open>What \<^verbatim>\<open>mainWindow.webContents.send\<close> sends to the renderer. A result is carried as the
  value that \<^verbatim>\<open>JSON.stringify\<close> serialises.\<close>

datatype event =
  Screenshot_taken Screenshot
| Processing_started
| Processing_complete json
| Queue_reset
| Recording_toggled bool string
| Recording_error string
| Audio_processing_started
| Audio_stream_chunk string
| Audio_processing_complete
| Audio_processing_error string
| Audio_queue_reset

text \<open>
  A call that reaches a provider: a service with a client has taken the work on.
  \<^verbatim>\<open>processScreenshots\<close> then reads the files of the queue and sends them to
  \<^verbatim>\<open>chat.completions.create\<close>; \<^verbatim>\<open>processImages\<close> sends the previews to \<^verbatim>\<open>generateContent\<close>;
  the last two are the requests of \<^verbatim>\<open>processAudioStream\<close>. A service without a client
  throws at its first line and reaches no provider.
\<close>

datatype provider_call =
  OpenAI_processScreenshots "Screenshot list"
| Gemini_processImages "string list"
| Gemini_generateContentStream string
| Gemini_generateContent string

text \<open>
  The module state of \<^verbatim>\<open>main.ts\<close> (\<open>screenshotQueue\<close>, \<open>isProcessing\<close>, \<open>config\<close>, the
  recorder singleton, the constant \<open>SCREENSHOT_DIR\<close>), that of the two services (whether
  \<^verbatim>\<open>openai\<close> in \<^verbatim>\<open>services/openai.ts\<close> and \<^verbatim>\<open>genAI\<close> in \<^verbatim>\<open>services/gemini.ts\<close> hold a client),
  and what the handlers do to the world: the screenshot files on disk, the visibility of
  the window, the events sent to the renderer and the calls made to the providers, both
  oldest first. The window exists whenever a handler runs: \<^verbatim>\<open>createWindow\<close> assigns
  \<open>mainWindow\<close> before it registers the shortcuts, and nothing resets it.
\<close>

record main_state =
  screenshotQueue :: "Screenshot list"
  isProcessing :: bool
  config :: "Config option"
  openai_client :: bool
  genAI_client :: bool
  audioRecorderService :: AudioRecorderService
  SCREENSHOT_DIR :: string
  screenshot_files :: "string set"
  windowVisible :: bool
  sent :: "event list"
  provider_calls :: "provider_call list"

definition MAX_SCREENSHOTS :: nat where
  "MAX_SCREENSHOTS = 4"

definition send :: "event \<Rightarrow> main_state \<Rightarrow> main_state" where
  "send ev st = st\<lparr>sent := sent st @ [ev]\<rparr>"

definition call_provider :: "provider_call \<Rightarrow> main_state \<Rightarrow> main_state" where
  "call_provider c st = st\<lparr>provider_calls := provider_calls st @ [c]\<rparr>"

text \<open>
  An \<^verbatim>\<open>async\<close> handler runs to its first \<^verbatim>\<open>await\<close> of an outside operation, and resumes
  when that operation settles; other handlers run in between. \<open>Settled\<close> is a handler
  that has finished (returned, or thrown to its caller), \<open>Awaiting\<close> one that is suspended.
\<close>

datatype 'a progress = Settled "js_error + 'a" | Awaiting

text \<open>\<^verbatim>\<open>try { body } catch (error) { handler } finally { fin }\<close> over a state.\<close>

definition try_catch_finally ::
  "('s \<Rightarrow> (js_error + 'a) \<times> 's) \<Rightarrow> (js_error \<Rightarrow> 's \<Rightarrow> (js_error + 'a) \<times> 's) \<Rightarrow> ('s \<Rightarrow> 's)
     \<Rightarrow> 's \<Rightarrow> (js_error + 'a) \<times> 's" where
  "try_catch_finally body handler fin s =
     (case body s of
        (Inr v, s1) \<Rightarrow> (Inr v, fin s1)
      | (Inl e, s1) \<Rightarrow> (case handler e s1 of (r, s2) \<Rightarrow> (r, fin s2)))"

subsection \<open>The configuration and the services\<close>

text \<open>
  What \<^verbatim>\<open>loadConfig\<close> and \<^verbatim>\<open>saveConfig\<close> do to the services with the configuration they
  hold: the service of the selected provider is handed its API key, when that key is not
  empty, and creates its client (\<^verbatim>\<open>updateConfig\<close>; the constructors of the SDKs are taken
  to return). A configuration whose key for the selected provider is empty is loaded all
  the same, and no client is created.
\<close>

definition initialise_service :: "Config \<Rightarrow> main_state \<Rightarrow> main_state" where
  "initialise_service c st =
     (if provider c = ''openai'' \<and> openaiApiKey c \<noteq> [] then st\<lparr>openai_client := True\<rparr>
      else if provider c = ''gemini'' \<and> geminiApiKey c \<noteq> [] then st\<lparr>genAI_client := True\<rparr>
      else st)"

text \<open>A configuration that is valid for the provider it selects: the provider is one of
  the two and its API key is not empty.\<close>

definition valid_config :: "Config \<Rightarrow> bool" where
  "valid_config c =
     (provider c = ''openai'' \<and> openaiApiKey c \<noteq> []
      \<or> provider c = ''gemini'' \<and> geminiApiKey c \<noteq> [])"

subsection \<open>\<^verbatim>\<open>handleTakeScreenshot\<close>\<close>

text \<open>Up to the first \<^verbatim>\<open>await\<close>: the capacity guard, then the window is hidden.\<close>

definition handleTakeScreenshot_start :: "main_state \<Rightarrow> unit progress \<times> main_state" where
  "handleTakeScreenshot_start st =
     (if length (screenshotQueue st) \<ge> MAX_SCREENSHOTS then (Settled (Inr ()), st)
      else (Awaiting, st\<lparr>windowVisible := False\<rparr>))"

text \<open>
  After the awaits (the 100 ms pause, \<^verbatim>\<open>captureScreenshot\<close>, \<^verbatim>\<open>fs.writeFile\<close>): either one of
  them threw, or the capture gave a buffer; \<open>now\<close> is \<^verbatim>\<open>Date.now()\<close> at \<^verbatim>\<open>const id\<close> and \<open>b64\<close>
  is \<^verbatim>\<open>buffer.toString('base64')\<close>.
\<close>

definition handleTakeScreenshot_resume ::
  "js_error + nat \<times> string \<Rightarrow> main_state \<Rightarrow> (js_error + unit) \<times> main_state" where
  "handleTakeScreenshot_resume captured st =
     (case captured of
        Inl e \<Rightarrow> (Inr (), st\<lparr>windowVisible := True\<rparr>)
      | Inr (now, b64) \<Rightarrow>
          let screenshotPath = path_join (SCREENSHOT_DIR st) (string_of_nat now @ ''.png'');
              screenshot = \<lparr> screenshot_id = now, preview = ''data:image/png;base64,'' @ b64,
                             path = screenshotPath \<rparr>
          in (Inr (),
              send (Screenshot_taken screenshot)
                (st\<lparr>screenshot_files := insert screenshotPath (screenshot_files st),
                    screenshotQueue := screenshotQueue st @ [screenshot],
                    windowVisible := True\<rparr>)))"

text \<open>A take-screenshot intent whose capture settles before anything else runs.\<close>

definition take_screenshot_alone :: "js_error + nat \<times> string \<Rightarrow> main_state \<Rightarrow> main_state" where
  "take_screenshot_alone captured st =
     (case handleTakeScreenshot_start st of
        (Awaiting, st1) \<Rightarrow> snd (handleTakeScreenshot_resume captured st1)
      | (Settled r, st1) \<Rightarrow> st1)"

subsection \<open>\<^verbatim>\<open>handleProcessScreenshots\<close>\<close>

definition no_config_result :: json where
  "no_config_result =
     JObject [(''approach'', JString ''Error''),
              (''code'', JString ''No configuration found. Please configure your API keys.''),
              (''timeComplexity'', JString []),
              (''spaceComplexity'', JString [])]"

text \<open>The message the \<^verbatim>\<open>catch\<close> block extracts: \<^verbatim>\<open>error.error.message\<close> when there is one,
  else \<^verbatim>\<open>error.message\<close>, else a default.\<close>

definition errorMessage :: "js_error \<Rightarrow> string" where
  "errorMessage error =
     (if error_message error \<noteq> None \<and> error_message error \<noteq> Some [] then the (error_message error)
      else if message error \<noteq> None \<and> message error \<noteq> Some [] then the (message error)
      else ''Error processing screenshots'')"

definition error_result :: "string \<Rightarrow> json" where
  "error_result msg =
     JObject [(''error'', JString msg),
              (''approach'', JString ''Error occurred while processing''),
              (''code'', JString (''Error: '' @ msg)),
              (''timeComplexity'', JString ''N/A''),
              (''spaceComplexity'', JString ''N/A'')]"

text \<open>The rest of the \<^verbatim>\<open>try\<close> block once the awaited service call has settled with \<open>reply\<close>
  (the value it threw, or the result it returned).\<close>

definition process_try_rest ::
  "js_error + json \<Rightarrow> main_state \<Rightarrow> (js_error + unit) \<times> main_state" where
  "process_try_rest reply st =
     (case reply of
        Inl e \<Rightarrow> (Inl e, st)
      | Inr result \<Rightarrow>
          if \<not> isProcessing st then (Inr (), st)
          else (Inr (), send (Processing_complete result) st))"

definition process_catch :: "js_error \<Rightarrow> main_state \<Rightarrow> (js_error + unit) \<times> main_state" where
  "process_catch error st =
     (if \<not> isProcessing st then (Inr (), st)
      else (Inr (), send (Processing_complete (error_result (errorMessage error))) st))"

definition process_finally :: "main_state \<Rightarrow> main_state" where
  "process_finally st = st\<lparr>isProcessing := False\<rparr>"

text \<open>The configuration selects one of the two providers \<^verbatim>\<open>handleProcessScreenshots\<close> has a
  branch for, and the service of that provider holds a client.\<close>

definition client_ready :: "Config \<Rightarrow> main_state \<Rightarrow> bool" where
  "client_ready c st =
     (provider c = ''openai'' \<and> openai_client st \<or> provider c = ''gemini'' \<and> genAI_client st)"

text \<open>
  The \<^verbatim>\<open>try\<close> block throws before anything is awaited from outside: the \<^verbatim>\<open>throw\<close> of the
  last branch, or a service that throws at its first line and so returns a promise
  already rejected. The \<^verbatim>\<open>catch\<close> and \<^verbatim>\<open>finally\<close> blocks then run before the event loop
  takes up the next intent.
\<close>

definition thrown_at_once :: "js_error \<Rightarrow> main_state \<Rightarrow> unit progress \<times> main_state" where
  "thrown_at_once e st =
     (case try_catch_finally (\<lambda>s. (Inl e, s)) process_catch process_finally st of
        (r, st1) \<Rightarrow> (Settled r, st1))"

text \<open>
  The handler up to the \<^verbatim>\<open>await\<close> of the service call. A service that holds a client goes
  on to an operation outside the process (\<^verbatim>\<open>processScreenshots\<close> reads the file of the first
  screenshot, \<^verbatim>\<open>processImages\<close> sends its request), and the handler stays suspended until
  the service has settled.
\<close>

definition handleProcessScreenshots_start :: "main_state \<Rightarrow> unit progress \<times> main_state" where
  "handleProcessScreenshots_start st =
     (if isProcessing st \<or> screenshotQueue st = [] then (Settled (Inr ()), st)
      else
        case config st of
          None \<Rightarrow> (Settled (Inr ()), send (Processing_complete no_config_result) st)
        | Some c \<Rightarrow>
            let st1 = send Processing_started (st\<lparr>isProcessing := True\<rparr>) in
            if provider c = ''openai'' then
              (if openai_client st1
               then (Awaiting,
                     call_provider (OpenAI_processScreenshots (screenshotQueue st1)) st1)
               else thrown_at_once openai_not_initialized st1)
            else if provider c = ''gemini'' then
              (if genAI_client st1
               then (Awaiting,
                     call_provider (Gemini_processImages (map preview (screenshotQueue st1))) st1)
               else thrown_at_once genAI_not_initialized st1)
            else thrown_at_once (Error (''Unsupported AI provider: '' @ provider c)) st1)"

text \<open>The handler from the moment the service call settles.\<close>

definition handleProcessScreenshots_resume ::
  "js_error + json \<Rightarrow> main_state \<Rightarrow> (js_error + unit) \<times> main_state" where
  "handleProcessScreenshots_resume reply st =
     try_catch_finally (process_try_rest reply) process_catch process_finally st"

subsection \<open>\<^verbatim>\<open>handleResetQueue\<close> and \<^verbatim>\<open>handleResetAudioQueue\<close>\<close>

definition cancelled_result :: json where
  "cancelled_result =
     JObject [(''approach'', JString ''Processing cancelled''),
              (''code'', JString []),
              (''timeComplexity'', JString []),
              (''spaceComplexity'', JString [])]"

text \<open>The handler up to the deletion loop: a job in progress is cancelled.\<close>

definition reset_cancel :: "main_state \<Rightarrow> main_state" where
  "reset_cancel st =
     (if isProcessing st
      then send (Processing_complete cancelled_result) (st\<lparr>isProcessing := False\<rparr>)
      else st)"

text \<open>
  A run of the handler suspended inside the deletion loop, at
  \<^verbatim>\<open>await fs.unlink(screenshot.path)\<close>: the array the loop iterates and the index of the
  screenshot whose unlink is awaited. \<^verbatim>\<open>for (const screenshot of screenshotQueue)\<close> iterates
  the array object that \<open>screenshotQueue\<close> named when the loop began, by index, so a
  screenshot pushed onto that array during the loop is visited too. \<open>iterated = None\<close>: that
  array is still the one \<open>screenshotQueue\<close> names. \<open>iterated = Some xs\<close>: another run of the
  handler has since assigned a new array to \<open>screenshotQueue\<close>, and the old one, left
  with the content \<open>xs\<close>, is reachable from this loop only.
\<close>

record reset_run =
  iterated :: "Screenshot list option"
  position :: nat

definition reset_array :: "main_state \<Rightarrow> reset_run \<Rightarrow> Screenshot list" where
  "reset_array st rr = (case iterated rr of None \<Rightarrow> screenshotQueue st | Some xs \<Rightarrow> xs)"

text \<open>After the loop: \<^verbatim>\<open>screenshotQueue = []\<close> and the \<^verbatim>\<open>queue-reset\<close> event.\<close>

definition reset_finish :: "main_state \<Rightarrow> main_state" where
  "reset_finish st = send Queue_reset (st\<lparr>screenshotQueue := []\<rparr>)"

text \<open>The head of the loop: with another screenshot to visit the handler suspends at its
  unlink (\<open>Some\<close>), otherwise it runs to its end (\<open>None\<close>).\<close>

definition reset_loop :: "reset_run \<Rightarrow> main_state \<Rightarrow> reset_run option \<times> main_state" where
  "reset_loop rr st =
     (if position rr < length (reset_array st rr) then (Some rr, st)
      else (None, reset_finish st))"

definition handleResetQueue_start :: "main_state \<Rightarrow> reset_run option \<times> main_state" where
  "handleResetQueue_start st = reset_loop \<lparr> iterated = None, position = 0 \<rparr> (reset_cancel st)"

text \<open>
  The awaited unlink has settled. It removes the file unless the file system refuses it
  (\<open>refused\<close>) or the file is not there; an error is logged and the loop goes on.
\<close>

definition handleResetQueue_resume ::
  "bool \<Rightarrow> reset_run \<Rightarrow> main_state \<Rightarrow> reset_run option \<times> main_state" where
  "handleResetQueue_resume refused rr st =
     (let target = path (reset_array st rr ! position rr);
          st1 = (if refused then st
                 else st\<lparr>screenshot_files := screenshot_files st - {target}\<rparr>)
      in reset_loop (rr\<lparr>position := position rr + 1\<rparr>) st1)"

text \<open>What the assignment \<^verbatim>\<open>screenshotQueue = []\<close> of one run means for another run that is
  suspended in its loop: the array that held \<open>old\<close> is no longer the queue.\<close>

definition detach :: "Screenshot list \<Rightarrow> reset_run \<Rightarrow> reset_run" where
  "detach old rr = (case iterated rr of None \<Rightarrow> rr\<lparr>iterated := Some old\<rparr> | Some xs \<Rightarrow> rr)"

definition handleResetAudioQueue :: "main_state \<Rightarrow> main_state" where
  "handleResetAudioQueue st = send Audio_queue_reset st"

section \<open>The Gemini service: audio (\<^verbatim>\<open>processAudioStream\<close>)\<close>

text \<open>The text of a streamed chunk, when the chunk has candidates, a first candidate with
  content, parts, a first part and a non-empty text: the two nested \<^verbatim>\<open>if\<close>s of the loop.\<close>

definition chunk_text :: "gen_response \<Rightarrow> string option" where
  "chunk_text chunk =
     (case first_part_text chunk of
        Some t \<Rightarrow> if t \<noteq> [] then Some t else None
      | None \<Rightarrow> None)"

text \<open>The \<^verbatim>\<open>for await\<close> loop over the chunks received, carrying \<open>chunkCount\<close>,
  \<open>hasReceivedContent\<close> and the texts handed to \<^verbatim>\<open>onChunk\<close> so far.\<close>

fun stream_loop ::
  "gen_response list \<Rightarrow> nat \<times> bool \<times> string list \<Rightarrow> nat \<times> bool \<times> string list" where
  "stream_loop [] acc = acc"
| "stream_loop (chunk # rest) (chunkCount, hasReceivedContent, delivered) =
     (case chunk_text chunk of
        Some chunkText \<Rightarrow> stream_loop rest (chunkCount + 1, True, delivered @ [chunkText])
      | None \<Rightarrow> stream_loop rest (chunkCount + 1, hasReceivedContent, delivered))"

text \<open>The \<^verbatim>\<open>catch\<close> block of \<^verbatim>\<open>processAudioStream\<close>.\<close>

definition audio_catch :: "js_error \<Rightarrow> js_error" where
  "audio_catch error =
     (if instanceofError error
      then Error (''Gemini audio processing failed: '' @ message_text error)
      else Error ''Unknown error occurred during Gemini audio processing'')"

text \<open>
  One run of \<^verbatim>\<open>processAudioStream\<close>: the texts it handed to \<^verbatim>\<open>onChunk\<close> in order, the SDK
  calls it made, and how it ended.
\<close>

record stream_run =
  on_chunk :: "string list"
  calls_made :: "provider_call list"
  outcome :: "js_error + unit"

text \<open>
  \<open>genAI\<close>: whether the service holds a client. \<open>stream\<close>: \<^verbatim>\<open>generateContentStream\<close> rejects,
  or yields chunks and then ends, normally or by throwing. \<open>fallback\<close>: what
  \<^verbatim>\<open>generateContent\<close> gives if it is called.
\<close>

definition processAudioStream ::
  "bool \<Rightarrow> string \<Rightarrow> js_error + gen_response list \<times> js_error option
     \<Rightarrow> js_error + gen_response \<Rightarrow> stream_run" where
  "processAudioStream genAI audioBase64 stream fallback =
     (if \<not> genAI then
        \<lparr> on_chunk = [], calls_made = [], outcome = Inl genAI_not_initialized \<rparr>
      else
        case stream of
          Inl e \<Rightarrow>
            \<lparr> on_chunk = [], calls_made = [Gemini_generateContentStream audioBase64],
              outcome = Inl (audio_catch e) \<rparr>
        | Inr (chunks, ending) \<Rightarrow>
            (case stream_loop chunks (0, False, []) of
               (chunkCount, hasReceivedContent, delivered) \<Rightarrow>
                 (case ending of
                    Some e \<Rightarrow>
                      \<lparr> on_chunk = delivered,
                        calls_made = [Gemini_generateContentStream audioBase64],
                        outcome = Inl (audio_catch e) \<rparr>
                  | None \<Rightarrow>
                      if hasReceivedContent then
                        \<lparr> on_chunk = delivered,
                          calls_made = [Gemini_generateContentStream audioBase64],
                          outcome = Inr () \<rparr>
                      else
                        (case fallback of
                           Inl e \<Rightarrow>
                             \<lparr> on_chunk = delivered,
                               calls_made = [Gemini_generateContentStream audioBase64,
                                             Gemini_generateContent audioBase64],
                               outcome = Inl (audio_catch e) \<rparr>
                         | Inr fallbackResponse \<Rightarrow>
                             \<lparr> on_chunk =
                                 (if response_text fallbackResponse \<noteq> []
                                  then delivered @ [response_text fallbackResponse]
                                  else delivered),
                               calls_made = [Gemini_generateContentStream audioBase64,
                                             Gemini_generateContent audioBase64],
                               outcome = Inr () \<rparr>))))"

text \<open>The calls of a run that are the non-streaming fallback.\<close>

fun is_fallback :: "provider_call \<Rightarrow> bool" where
  "is_fallback (Gemini_generateContent a) = True"
| "is_fallback c = False"

text \<open>A stream none of whose chunks carries text.\<close>

definition no_content :: "gen_response list \<Rightarrow> bool" where
  "no_content chunks = list_all (\<lambda>c. chunk_text c = None) chunks"

section \<open>The main process: recording and audio processing\<close>

text \<open>
  What the outside answers during one \<^verbatim>\<open>handleToggleRecording\<close>: the recorder's
  environment, the read of the audio file as base64, and the Gemini SDK.
\<close>

record audio_env =
  recorder_answers :: recorder_env
  readFile_base64 :: "js_error + string"
  stream_reply :: "js_error + gen_response list \<times> js_error option"
  fallback_reply :: "js_error + gen_response"

definition audioFileToBase64 :: "js_error + string \<Rightarrow> js_error + string" where
  "audioFileToBase64 readFile =
     (case readFile of
        Inl e \<Rightarrow> Inl (Error (''Failed to read audio file: '' @ error_toString e))
      | Inr b64 \<Rightarrow> Inr b64)"

text \<open>The \<^verbatim>\<open>try\<close> block of \<^verbatim>\<open>handleProcessAudio\<close>.\<close>

definition process_audio_try ::
  "audio_env \<Rightarrow> Config \<Rightarrow> main_state \<Rightarrow> (js_error + unit) \<times> main_state" where
  "process_audio_try env c st =
     (let st1 = send Audio_processing_started st in
      case audioFileToBase64 (readFile_base64 env) of
        Inl e \<Rightarrow> (Inl e, st1)
      | Inr audioBase64 \<Rightarrow>
          if provider c = ''gemini'' then
            let r = processAudioStream (genAI_client st1) audioBase64 (stream_reply env)
                      (fallback_reply env);
                st2 = st1\<lparr>sent := sent st1 @ map Audio_stream_chunk (on_chunk r),
                          provider_calls := provider_calls st1 @ calls_made r\<rparr>
            in (case outcome r of
                  Inl e \<Rightarrow> (Inl e, st2)
                | Inr u \<Rightarrow> (Inr (), send Audio_processing_complete st2))
          else
            (Inl (Error ''Audio processing is currently only supported with Gemini provider''),
             st1))"

definition handleProcessAudio :: "audio_env \<Rightarrow> string \<Rightarrow> main_state \<Rightarrow> main_state" where
  "handleProcessAudio env audioFilePath st =
     (case config st of
        None \<Rightarrow> send (Audio_processing_error ''No configuration found'') st
      | Some c \<Rightarrow>
          snd (try_catch_finally (process_audio_try env c)
                 (\<lambda>error s. (Inr (), send (Audio_processing_error (message_text error)) s))
                 (\<lambda>s. s) st))"

text \<open>
  \<^verbatim>\<open>handleToggleRecording\<close>: \<open>Some ()\<close> when the handler returns (its \<^verbatim>\<open>catch\<close> lets nothing
  out), \<open>None\<close> when the awaited \<^verbatim>\<open>toggleRecording\<close> never settles and the handler stays
  suspended at its first line.
\<close>

definition handleToggleRecording :: "audio_env \<Rightarrow> main_state \<Rightarrow> unit option \<times> main_state" where
  "handleToggleRecording env st =
     (case toggleRecording (recorder_answers env) (audioRecorderService st) of
        (None, r) \<Rightarrow> (None, st\<lparr>audioRecorderService := r\<rparr>)
      | (Some (Inl error), r) \<Rightarrow>
          (Some (),
           send (Recording_error (message_text error)) (st\<lparr>audioRecorderService := r\<rparr>))
      | (Some (Inr filePath), r) \<Rightarrow>
          let st1 = st\<lparr>audioRecorderService := r\<rparr>;
              isRec = getRecordingStatus (audioRecorderService st1);
              st2 = send (Recording_toggled isRec filePath) st1
          in (Some (),
              if \<not> isRec \<and> filePath \<noteq> [] then handleProcessAudio env filePath st2 else st2))"

section \<open>The event loop: handlers interleaved at their awaits\<close>

text \<open>
  The main process with the handlers that are suspended: the number of
  \<^verbatim>\<open>handleTakeScreenshot\<close> runs waiting for their capture, the
  \<^verbatim>\<open>handleProcessScreenshots\<close> runs waiting for their provider call, each named by the
  position of its call in \<open>provider_calls\<close>, and the \<^verbatim>\<open>handleResetQueue\<close> runs waiting for an
  unlink, oldest first.
\<close>

record system =
  main :: main_state
  pending_captures :: nat
  in_flight :: "nat list"
  resets :: "reset_run list"

text \<open>
  What the event loop runs next: an intent from the renderer or a global shortcut, or the
  continuation of a suspended handler whose awaited operation has settled.
  \<open>Unlink_settles k refused\<close> resumes the \<open>k\<close>-th suspended reset.
\<close>

datatype action =
  Take_screenshot
| Capture_settles "js_error + nat \<times> string"
| Process_queue
| Provider_settles nat "js_error + json"
| Reset_queue
| Unlink_settles nat bool

fun step :: "action \<Rightarrow> system \<Rightarrow> system option" where
  "step Take_screenshot s =
     (case handleTakeScreenshot_start (main s) of
        (Awaiting, st) \<Rightarrow> Some (s\<lparr>main := st, pending_captures := pending_captures s + 1\<rparr>)
      | (Settled r, st) \<Rightarrow> Some (s\<lparr>main := st\<rparr>))"
| "step (Capture_settles captured) s =
     (if pending_captures s = 0 then None
      else Some (s\<lparr>main := snd (handleTakeScreenshot_resume captured (main s)),
                   pending_captures := pending_captures s - 1\<rparr>))"
| "step Process_queue s =
     (case handleProcessScreenshots_start (main s) of
        (Awaiting, st) \<Rightarrow>
          Some (s\<lparr>main := st, in_flight := in_flight s @ [length (provider_calls st) - 1]\<rparr>)
      | (Settled r, st) \<Rightarrow> Some (s\<lparr>main := st\<rparr>))"
| "step (Provider_settles j reply) s =
     (if j \<in> set (in_flight s)
      then Some (s\<lparr>main := snd (handleProcessScreenshots_resume reply (main s)),
                   in_flight := removeAll j (in_flight s)\<rparr>)
      else None)"
| "step Reset_queue s =
     (case handleResetQueue_start (main s) of
        (Some rr, st) \<Rightarrow> Some (s\<lparr>main := st, resets := resets s @ [rr]\<rparr>)
      | (None, st) \<Rightarrow>
          Some (s\<lparr>main := st, resets := map (detach (screenshotQueue (main s))) (resets s)\<rparr>))"
| "step (Unlink_settles k refused) s =
     (if k < length (resets s)
         \<and> position (resets s ! k) < length (reset_array (main s) (resets s ! k))
      then
        case handleResetQueue_resume refused (resets s ! k) (main s) of
          (Some rr, st) \<Rightarrow> Some (s\<lparr>main := st, resets := (resets s)[k := rr]\<rparr>)
        | (None, st) \<Rightarrow>
            Some (s\<lparr>main := st,
                    resets := map (detach (screenshotQueue (main s)))
                                (take k (resets s) @ drop (Suc k) (resets s))\<rparr>)
      else None)"

text \<open>A run of the event loop; \<open>None\<close> when the list asks for a continuation that no
  suspended handler is waiting for.\<close>

fun run :: "action list \<Rightarrow> system \<Rightarrow> system option" where
  "run [] s = Some s"
| "run (a # as) s = (case step a s of None \<Rightarrow> None | Some s' \<Rightarrow> run as s')"

text \<open>The results among the events: the payloads of the \<^verbatim>\<open>processing-complete\<close> events, in
  the order sent.\<close>

fun completions :: "event list \<Rightarrow> json list" where
  "completions [] = []"
| "completions (Processing_complete r # evs) = r # completions evs"
| "completions (ev # evs) = completions evs"

text \<open>The actions that leave a job alone, given the calls \<open>stale\<close> that were already in
  flight when the job began: every action except a reset intent and the settling of a
  stale call.\<close>

fun undisturbed :: "nat list \<Rightarrow> action \<Rightarrow> bool" where
  "undisturbed stale Reset_queue = False"
| "undisturbed stale (Provider_settles k reply) = (k \<notin> set stale)"
| "undisturbed stale a = True"

text \<open>The job of call \<open>j\<close> is still suspended and nothing has been reported since the events
  \<open>base\<close>; or call \<open>j\<close> has been issued and is no longer in flight.\<close>

definition job_waiting :: "nat list \<Rightarrow> nat \<Rightarrow> event list \<Rightarrow> system \<Rightarrow> bool" where
  "job_waiting stale j base s =
     (isProcessing (main s) \<and> in_flight s = stale @ [j] \<and> j < length (provider_calls (main s))
      \<and> (\<exists>new. sent (main s) = base @ new \<and> completions new = []))"

definition job_gone :: "nat \<Rightarrow> system \<Rightarrow> bool" where
  "job_gone j s = (j \<notin> set (in_flight s) \<and> j < length (provider_calls (main s)))"

text \<open>Every suspended reset waits at an index inside the array it iterates.\<close>

definition resets_in_range :: "system \<Rightarrow> bool" where
  "resets_in_range s =
     list_all (\<lambda>rr. position rr < length (reset_array (main s) rr)) (resets s)"

section \<open>The renderer (\<^verbatim>\<open>App.tsx\<close>): state and listeners\<close>

text \<open>An entry of the result history: \<open>id\<close>, \<open>type\<close>, \<open>timestamp\<close>, \<open>result\<close> (a parsed solution
  or a raw string) and the optional \<open>screenshots\<close>.\<close>

record HistoryItem =
  item_id :: nat
  item_type :: string
  item_timestamp :: nat
  item_result :: "json + string"
  item_screenshots :: "Screenshot list option"

text \<open>
  The React state of \<^verbatim>\<open>App\<close> that the listeners and \<^verbatim>\<open>handleReset\<close> write. The source's
  \<open>isProcessing\<close>, \<open>isRecording\<close>, \<open>result\<close> and \<open>error\<close> carry the suffix \<open>_ui\<close> here; the
  settings form (\<open>showConfig\<close>, \<open>config\<close>) is left out.
\<close>

record App =
  isProcessing_ui :: bool
  result_ui :: "json option"
  screenshots :: "Screenshot list"
  error_ui :: "string option"
  isRecording_ui :: bool
  isAudioProcessing :: bool
  streamingResponse :: string
  showStreamingResponse :: bool
  history :: "HistoryItem list"
  currentItem :: "HistoryItem option"

text \<open>\<^verbatim>\<open>s.trim()\<close>, for the ASCII white space.\<close>

definition is_space :: "char \<Rightarrow> bool" where
  "is_space c = (c \<in> set [CHR '' '', CHR 0x09, CHR 0x0A, CHR 0x0B, CHR 0x0C, CHR 0x0D])"

definition js_trim :: "string \<Rightarrow> string" where
  "js_trim s = rev (dropWhile is_space (rev (dropWhile is_space s)))"

definition onProcessingStarted :: "App \<Rightarrow> App" where
  "onProcessingStarted a = a\<lparr>isProcessing_ui := True, currentItem := None\<rparr>"

text \<open>
  The listener of \<^verbatim>\<open>processing-complete\<close>. \<open>captured\<close> is the \<open>screenshots\<close> the listener closes
  over, \<open>now\<close> the clock; the payload is the parsed result (the \<^verbatim>\<open>catch\<close> branch, for a
  payload that does not parse, keeps the raw string instead).
\<close>

definition onProcessingComplete :: "Screenshot list \<Rightarrow> nat \<Rightarrow> json \<Rightarrow> App \<Rightarrow> App" where
  "onProcessingComplete captured now parsedResult a =
     (let historyItem = \<lparr> item_id = now, item_type = ''screenshot'', item_timestamp = now,
                           item_result = Inl parsedResult, item_screenshots = Some captured \<rparr>
      in a\<lparr>history := historyItem # history a, currentItem := Some historyItem,
            result_ui := None, isProcessing_ui := False\<rparr>)"

definition onScreenshotTaken :: "Screenshot \<Rightarrow> App \<Rightarrow> App" where
  "onScreenshotTaken screenshot a = a\<lparr>screenshots := screenshots a @ [screenshot]\<rparr>"

text \<open>The listener of \<^verbatim>\<open>queue-reset\<close>: ``Don't clear history/currentItem here - only clear
  screenshots''.\<close>

definition onQueueReset :: "App \<Rightarrow> App" where
  "onQueueReset a = a\<lparr>screenshots := []\<rparr>"

definition onRecordingToggled :: "bool \<Rightarrow> string \<Rightarrow> App \<Rightarrow> App" where
  "onRecordingToggled isRec filePath a =
     (let a1 = a\<lparr>isRecording_ui := isRec\<rparr> in
      if isRec then a1\<lparr>streamingResponse := [], showStreamingResponse := False\<rparr> else a1)"

definition onRecordingError :: "string \<Rightarrow> App \<Rightarrow> App" where
  "onRecordingError e a = a\<lparr>error_ui := Some e, isRecording_ui := False\<rparr>"

definition onAudioProcessingStarted :: "App \<Rightarrow> App" where
  "onAudioProcessingStarted a =
     a\<lparr>isAudioProcessing := True, streamingResponse := [], showStreamingResponse := True,
       currentItem := None\<rparr>"

definition onAudioStreamChunk :: "string \<Rightarrow> App \<Rightarrow> App" where
  "onAudioStreamChunk chunk a =
     a\<lparr>streamingResponse := streamingResponse a @ chunk, showStreamingResponse := True\<rparr>"

text \<open>The listener of \<^verbatim>\<open>audio-processing-complete\<close>; \<open>captured\<close> is the \<open>streamingResponse\<close> it
  closes over.\<close>

definition onAudioProcessingComplete :: "string \<Rightarrow> nat \<Rightarrow> App \<Rightarrow> App" where
  "onAudioProcessingComplete captured now a =
     (let a1 = a\<lparr>isAudioProcessing := False\<rparr> in
      if js_trim captured \<noteq> [] then
        let historyItem = \<lparr> item_id = now, item_type = ''audio'', item_timestamp = now,
                             item_result = Inr captured, item_screenshots = None \<rparr>
        in a1\<lparr>history := historyItem # history a1, currentItem := Some historyItem,
               showStreamingResponse := False\<rparr>
      else a1)"

definition onAudioProcessingError :: "string \<Rightarrow> App \<Rightarrow> App" where
  "onAudioProcessingError e a = a\<lparr>error_ui := Some e, isAudioProcessing := False\<rparr>"

definition onAudioQueueReset :: "App \<Rightarrow> App" where
  "onAudioQueueReset a =
     a\<lparr>streamingResponse := [], showStreamingResponse := False, isAudioProcessing := False\<rparr>"

text \<open>
  One event reaching its listener. The listeners are registered once, by an effect with
  an empty dependency list, so what they close over are the values of the first render:
  no screenshots and the empty streaming response.
\<close>

fun listener :: "nat \<Rightarrow> event \<Rightarrow> App \<Rightarrow> App" where
  "listener now (Screenshot_taken s) a = onScreenshotTaken s a"
| "listener now Processing_started a = onProcessingStarted a"
| "listener now (Processing_complete r) a = onProcessingComplete [] now r a"
| "listener now Queue_reset a = onQueueReset a"
| "listener now (Recording_toggled isRec filePath) a = onRecordingToggled isRec filePath a"
| "listener now (Recording_error e) a = onRecordingError e a"
| "listener now Audio_processing_started a = onAudioProcessingStarted a"
| "listener now (Audio_stream_chunk c) a = onAudioStreamChunk c a"
| "listener now Audio_processing_complete a = onAudioProcessingComplete [] now a"
| "listener now (Audio_processing_error e) a = onAudioProcessingError e a"
| "listener now Audio_queue_reset a = onAudioQueueReset a"

text \<open>Events reach the listeners in the order sent.\<close>

fun deliver :: "nat \<Rightarrow> event list \<Rightarrow> App \<Rightarrow> App" where
  "deliver now [] a = a"
| "deliver now (ev # evs) a = deliver now evs (listener now ev a)"

text \<open>The renderer once the events that the main process sent between the states \<open>s\<close> and
  \<open>s'\<close> have reached their listeners.\<close>

definition renderer_after :: "nat \<Rightarrow> system \<Rightarrow> system \<Rightarrow> App \<Rightarrow> App" where
  "renderer_after now s s' a = deliver now (drop (length (sent (main s))) (sent (main s'))) a"

text \<open>
  \<^verbatim>\<open>handleReset\<close> of the renderer (``Resetting all state...''), in the stretches between its
  awaits: after \<^verbatim>\<open>await window.electron.resetQueue()\<close> it clears the streaming state, and
  after \<^verbatim>\<open>await window.electron.resetAudioQueue()\<close> it clears history, current item, result,
  the flags and the error.
\<close>

definition handleReset_after_resetQueue :: "App \<Rightarrow> App" where
  "handleReset_after_resetQueue a =
     a\<lparr>streamingResponse := [], showStreamingResponse := False, isAudioProcessing := False\<rparr>"

definition handleReset_after_resetAudioQueue :: "App \<Rightarrow> App" where
  "handleReset_after_resetAudioQueue a =
     a\<lparr>history := [], currentItem := None, result_ui := None,
       isProcessing_ui := False, isRecording_ui := False, error_ui := None\<rparr>"

text \<open>
  One run of \<^verbatim>\<open>handleReset\<close> with the main process: the invoke of \<^verbatim>\<open>reset-queue\<close> starts
  \<^verbatim>\<open>handleResetQueue\<close>, and \<open>during\<close> is what the event loop of the main process runs until
  that handler has returned; then \<^verbatim>\<open>reset-audio-queue\<close> is invoked. The events a handler
  sends are taken to reach the listeners before the reply to the invoke does.
\<close>

definition handleReset ::
  "nat \<Rightarrow> action list \<Rightarrow> system \<times> App \<Rightarrow> (system \<times> App) option" where
  "handleReset now during sa =
     (case sa of (s, a) \<Rightarrow>
        case run (Reset_queue # during) s of
          None \<Rightarrow> None
        | Some s1 \<Rightarrow>
            let a1 = handleReset_after_resetQueue (renderer_after now s s1 a);
                s2 = s1\<lparr>main := handleResetAudioQueue (main s1)\<rparr>
            in Some (s2, handleReset_after_resetAudioQueue (renderer_after now s1 s2 a1)))"

section \<open>Concrete states and inputs\<close>

text \<open>The main process once \<^verbatim>\<open>app.whenReady\<close> has run, \<^verbatim>\<open>loadConfig\<close> having returned \<open>cfg\<close>; no
  API key was in the environment when the services were imported.\<close>

definition initial_main :: "Config option \<Rightarrow> main_state" where
  "initial_main cfg =
     (let st = \<lparr> screenshotQueue = [], isProcessing = False, config = cfg,
                 openai_client = False, genAI_client = False,
                 audioRecorderService = new_AudioRecorderService,
                 SCREENSHOT_DIR = ''/tmp/screenshots'', screenshot_files = {},
                 windowVisible = True, sent = [], provider_calls = [] \<rparr>
      in case cfg of None \<Rightarrow> st | Some c \<Rightarrow> initialise_service c st)"

text \<open>A main process in which no handler is suspended.\<close>

definition at_rest :: "main_state \<Rightarrow> system" where
  "at_rest st = \<lparr> main = st, pending_captures = 0, in_flight = [], resets = [] \<rparr>"

definition initial_system :: "Config option \<Rightarrow> system" where
  "initial_system cfg = at_rest (initial_main cfg)"

definition initial_App :: App where
  "initial_App =
     \<lparr> isProcessing_ui = False, result_ui = None, screenshots = [], error_ui = None,
       isRecording_ui = False, isAudioProcessing = False, streamingResponse = [],
       showStreamingResponse = False, history = [], currentItem = None \<rparr>"

definition gemini_config :: Config where
  "gemini_config =
     \<lparr> provider = ''gemini'', openaiApiKey = [], geminiApiKey = ''k'', language = ''Python'',
       model = ''gemini-2.5-flash'', audioDeviceId = ''default'',
       interviewType = algorithmic \<rparr>"

text \<open>One screenshot queued, no configuration loaded; the same with the Gemini
  configuration loaded.\<close>

definition shot_1 :: Screenshot where
  "shot_1 = \<lparr> screenshot_id = 1, preview = ''data:image/png;base64,iVBOR'',
              path = ''/tmp/screenshots/1.png'' \<rparr>"

definition one_shot :: main_state where
  "one_shot = (initial_main None)\<lparr>screenshotQueue := [shot_1]\<rparr>"

definition gemini_shot :: main_state where
  "gemini_shot = (initial_main (Some gemini_config))\<lparr>screenshotQueue := [shot_1]\<rparr>"

text \<open>The Gemini configuration with its key left empty, as \<^verbatim>\<open>loadConfig\<close> accepts it from
  the file, and one screenshot queued under it.\<close>

definition keyless_config :: Config where
  "keyless_config = gemini_config\<lparr>geminiApiKey := []\<rparr>"

definition keyless_system :: system where
  "keyless_system = at_rest ((initial_main (Some keyless_config))\<lparr>screenshotQueue := [shot_1]\<rparr>)"

text \<open>One screenshot queued under the Gemini configuration, its file on disk.\<close>

definition gemini_shot_on_disk :: system where
  "gemini_shot_on_disk = at_rest (gemini_shot\<lparr>screenshot_files := {''/tmp/screenshots/1.png''}\<rparr>)"

definition gemini_system :: system where
  "gemini_system = at_rest gemini_shot"

definition solution_A :: json where
  "solution_A =
     JObject [(''approach'', JString ''two pointers''), (''code'', JString ''pass''),
              (''timeComplexity'', JString ''O(n)''), (''spaceComplexity'', JString ''O(1)'')]"

definition solution_B :: json where
  "solution_B =
     JObject [(''approach'', JString ''hash map''), (''code'', JString ''return''),
              (''timeComplexity'', JString ''O(n)''), (''spaceComplexity'', JString ''O(n)'')]"

text \<open>
  Five take-screenshot intents arrive before the first capture has settled (the handler
  waits 100 ms before it captures), then the five captures settle.
\<close>

definition overlapping_takes :: "action list" where
  "overlapping_takes =
     replicate 5 Take_screenshot
       @ map (\<lambda>n. Capture_settles (Inr (n, ''iVBOR''))) [1, 2, 3, 4, 5]"

text \<open>
  A screenshot is taken and processed (job 0); while the provider call is awaited the queue
  is reset (the file of the screenshot is unlinked); a new screenshot is taken and
  processed (job 1); then the call of job 0 returns \<open>solution_A\<close>.
\<close>

definition stale_trace :: "action list" where
  "stale_trace =
     [Take_screenshot, Capture_settles (Inr (1, ''iVBOR'')), Process_queue,
      Reset_queue, Unlink_settles 0 False,
      Take_screenshot, Capture_settles (Inr (2, ''iVBOR'')), Process_queue,
      Provider_settles 0 (Inr solution_A)]"

text \<open>The same run, after which the provider call of job 1 fails. No reset intent arrives
  after the second process-queue intent.\<close>

definition quota_error :: js_error where
  "quota_error = Error ''Gemini processing failed: quota''"

definition swallowed_trace :: "action list" where
  "swallowed_trace = stale_trace @ [Provider_settles 1 (Inl quota_error)]"

text \<open>A job is started, a screenshot intent and a second process-queue intent follow, and
  the provider call of the job fails.\<close>

definition failed_trace :: "action list" where
  "failed_trace = Process_queue # [Take_screenshot, Process_queue]
      @ [Provider_settles (length (provider_calls (main gemini_system))) (Inl quota_error)]"

text \<open>The renderer after one solved question.\<close>

definition App_with_history :: App where
  "App_with_history = onProcessingComplete [] 7 solution_A initial_App"

text \<open>An environment in which \<^verbatim>\<open>sox\<close> is the recording tool found, the tool runs until it is
  signalled, and \<^verbatim>\<open>fs.stat\<close> of the finished file gives \<open>st\<close>. In \<open>sox_exited\<close> the tool has
  exited before the stop and has left no file.\<close>

definition sox_env :: "js_error + nat \<Rightarrow> recorder_env" where
  "sox_env st =
     \<lparr> userData = ''/home/u/.config/app'', which_found = (\<lambda>cmd. cmd = ''sox''),
       close_after_kill = True, stat_outputPath = st \<rparr>"

definition ENOENT :: js_error where
  "ENOENT = Error ''ENOENT: no such file or directory, stat''"

definition sox_exited :: recorder_env where
  "sox_exited = (sox_env (Inl ENOENT))\<lparr>close_after_kill := False\<rparr>"

text \<open>A main process whose recorder was started with \<^verbatim>\<open>sox\<close>, and answers in which the
  recorder meets the given environment and the stream yields two chunks.\<close>

definition recording_main :: main_state where
  "recording_main = (initial_main (Some gemini_config))\<lparr>audioRecorderService :=
      snd (startRecording (sox_env (Inr 0)) new_AudioRecorderService)\<rparr>"

definition audio_answers :: "recorder_env \<Rightarrow> audio_env" where
  "audio_answers renv = \<lparr> recorder_answers = renv, readFile_base64 = Inr ''UklGR'',
      stream_reply = Inr ([text_response ''Hello '', text_response ''world''], None),
      fallback_reply = Inr (text_response ''unused'') \<rparr>"

text \<open>The text of the spec's example, the object inside it, the solution it denotes, and a
  text in which prose after the object has braces of its own.\<close>

definition example_object :: string where
  "example_object =
     ''{\"approach\":\"x\",\"code\":\"y\",\"timeComplexity\":\"O(1)\",\"spaceComplexity\":\"O(1)\"}''"

definition example_text :: string where
  "example_text = ''Sure! '' @ example_object @ '' Hope that helps!''"

definition example_solution :: json where
  "example_solution =
     JObject [(''approach'', JString ''x''), (''code'', JString ''y''),
              (''timeComplexity'', JString ''O(1)''), (''spaceComplexity'', JString ''O(1)'')]"

definition braces_after_text :: string where
  "braces_after_text = ''Sure! '' @ example_object @ '' Here {} is an empty map.''"

section \<open>Facts about the recorder\<close>

lemma string_of_nat_1: "string_of_nat 1 = ''1''"
  by (simp add: string_of_nat.simps digit_char_def)

lemma string_of_nat_Suc_0: "string_of_nat (Suc 0) = ''1''"
  by (simp add: string_of_nat.simps digit_char_def)

lemma sox_found: "checkRecordingCapability (sox_env st) = Inr ''sox''"
  by (simp add: checkRecordingCapability_def sox_env_def)

lemma stat_sox: "stat_outputPath (sox_env st) = st"
  by (simp add: sox_env_def)

lemma close_sox: "close_after_kill (sox_env st)"
  by (simp add: sox_env_def)

lemma question_path_sox:
  "question_path (sox_env st) (Suc 0) = ''/home/u/.config/app/recordings/question-1.wav''"
  by (simp add: question_path_def path_join_def sox_env_def string_of_nat_Suc_0)

text \<open>
  C6. The recorder is a two-state machine over \<open>isRecording\<close>: \<^verbatim>\<open>stopRecording\<close> while idle
  throws \<^verbatim>\<open>Error('Not currently recording')\<close> and \<^verbatim>\<open>startRecording\<close> while recording throws
  \<^verbatim>\<open>Error('Already recording')\<close> (the invalid-state errors), each leaving every field of
  the recorder as it was; \<^verbatim>\<open>toggleRecording\<close> stops when recording and starts when idle; a
  start that returns leaves the recorder recording, and a stop from recording leaves it
  idle.
\<close>

theorem recorder_two_state_machine:
  "(\<not> isRecording r \<longrightarrow>
      stopRecording env r = (Some (Inl (Error ''Not currently recording'')), r))
   \<and> (isRecording r \<longrightarrow> startRecording env r = (Inl (Error ''Already recording''), r))
   \<and> toggleRecording env r
       = (if isRecording r then stopRecording env r
          else (Some (fst (startRecording env r)), snd (startRecording env r)))
   \<and> (\<forall>p r'. \<not> isRecording r \<and> startRecording env r = (Inr p, r') \<longrightarrow> isRecording r')
   \<and> (isRecording r \<longrightarrow> \<not> isRecording (snd (stopRecording env r)))"
  by (auto simp: stopRecording_def startRecording_def toggleRecording_def Let_def
           split: sum.splits option.splits prod.splits)

theorem recorder_two_state_machine_witness:
  "stopRecording (sox_env (Inr 0)) new_AudioRecorderService
     = (Some (Inl (Error ''Not currently recording'')), new_AudioRecorderService)
   \<and> startRecording (sox_env (Inr 0)) (new_AudioRecorderService\<lparr>isRecording := True\<rparr>)
     = (Inl (Error ''Already recording''), new_AudioRecorderService\<lparr>isRecording := True\<rparr>)
   \<and> isRecording (snd (startRecording (sox_env (Inr 0)) new_AudioRecorderService))"
proof -
  have idle: "\<not> isRecording new_AudioRecorderService"
    by (simp add: new_AudioRecorderService_def)
  have rec: "isRecording (new_AudioRecorderService\<lparr>isRecording := True\<rparr>)"
    by simp
  obtain p r' where st:
    "startRecording (sox_env (Inr 0)) new_AudioRecorderService = (Inr p, r')"
    by (simp add: startRecording_def sox_found new_AudioRecorderService_def)
  from recorder_two_state_machine
         [of new_AudioRecorderService "sox_env (Inr 0)"]
       recorder_two_state_machine
         [of "new_AudioRecorderService\<lparr>isRecording := True\<rparr>" "sox_env (Inr 0)"]
       idle rec st
  show ?thesis by auto
qed

subsection \<open>A stop that finds no recording\<close>

lemma verify_fails:
  "file_missing_or_empty env \<Longrightarrow> \<exists>m. verify_recording env = Inl (Error m)"
  by (auto simp: file_missing_or_empty_def verify_recording_def split: sum.splits)

lemma stop_fails:
  assumes "isRecording r" "file_missing_or_empty env"
    and "close_after_kill env \<or> recordingProcess r = None"
  shows "\<exists>m. stopRecording env r =
           (Some (Inl (Error (''Failed to stop recording: Error: Recording file was not created properly: '' @ m))),
            r\<lparr>isRecording := False, recordingProcess := None\<rparr>)"
  using assms
  by (auto simp: stopRecording_def Let_def verify_recording_def file_missing_or_empty_def error_toString_def
      split: sum.splits option.splits)

text \<open>A stop whose \<^verbatim>\<open>'close'\<close> never comes: the promise stays pending, the recorder is
  left idle and still holds the subprocess.\<close>

lemma stop_hangs:
  assumes "isRecording r" "recordingProcess r \<noteq> None" "\<not> close_after_kill env"
  shows "stopRecording env r = (None, r\<lparr>isRecording := False\<rparr>)"
  using assms by (simp add: stopRecording_def Let_def)

lemma start_ok:
  assumes "\<not> isRecording r" "checkRecordingCapability env = Inr tool"
  shows "\<exists>r'. startRecording env r = (Inr (question_path env (questionCounter r)), r')
     \<and> outputPath r' = question_path env (questionCounter r) \<and> isRecording r'
     \<and> questionCounter r' = questionCounter r"
  using assms by (simp add: startRecording_def Let_def)

lemma found_tool:
  "checkRecordingCapability env = Inr tool \<Longrightarrow>
     tool = ''arecord'' \<or> tool = ''sox'' \<or> tool = ''ffmpeg''"
  by (auto simp: checkRecordingCapability_def split: option.splits if_splits)

lemma recording_args_last:
  "tool = ''arecord'' \<or> tool = ''sox'' \<or> tool = ''ffmpeg'' \<Longrightarrow>
     last (recording_args tool cfg out) = out"
  by (auto simp: recording_args_def)

lemma start_spawns:
  assumes "\<not> isRecording r" "checkRecordingCapability env = Inr tool"
  shows "\<exists>r' args. startRecording env r = (Inr (question_path env (questionCounter r)), r')
     \<and> outputPath r' = question_path env (questionCounter r)
     \<and> recordingProcess r' = Some (tool, args)
     \<and> last args = question_path env (questionCounter r)"
  using assms recording_args_last[OF found_tool[OF assms(2)]]
  by (simp add: startRecording_def Let_def)

lemma start_returns:
  assumes "startRecording env r = (Inr p, r')"
  shows "p = question_path env (questionCounter r) \<and> outputPath r' = p \<and> isRecording r'
     \<and> questionCounter r' = questionCounter r \<and> \<not> isRecording r
     \<and> recordingProcess r' \<noteq> None"
  using assms by (auto simp: startRecording_def Let_def split: if_splits sum.splits)

text \<open>
  C10. A recording is started and returns the path \<open>p\<close>; the output file is then missing
  or empty when it is stopped. The stop throws once the subprocess has closed on the
  signal (and never returns a path: where the \<^verbatim>\<open>'close'\<close> does not come it does not settle
  at all); the recorder is left idle (\<open>isRecording\<close> false) with \<open>questionCounter\<close> as it
  was, and the next \<^verbatim>\<open>startRecording\<close> (same user-data directory, a recording tool found)
  returns the same path \<open>p\<close> = \<^verbatim>\<open>question-<n>.wav\<close> and spawns the tool with \<open>p\<close> as its
  output file.
\<close>

theorem failed_stop_keeps_question_counter:
  assumes "startRecording env0 r0 = (Inr p, r1)"
    and "file_missing_or_empty env1"
    and "stopRecording env1 r1 = (res, r2)"
    and "checkRecordingCapability env2 = Inr tool"
    and "userData env2 = userData env0"
  shows "(if close_after_kill env1 then \<exists>m. res = Some (Inl (Error m)) else res = None)
     \<and> \<not> isRecording r2
     \<and> questionCounter r2 = questionCounter r1
     \<and> (\<exists>r3 args. startRecording env2 r2 = (Inr p, r3) \<and> outputPath r3 = p
            \<and> recordingProcess r3 = Some (tool, args) \<and> last args = p
            \<and> p = question_path env2 (questionCounter r1))"
proof -
  from start_returns[OF assms(1)] have
    1: "p = question_path env0 (questionCounter r0)" "isRecording r1"
       "questionCounter r1 = questionCounter r0" "recordingProcess r1 \<noteq> None" by simp_all
  have 2: "if close_after_kill env1 then \<exists>m. res = Some (Inl (Error m)) else res = None"
    and 3: "\<not> isRecording r2" "questionCounter r2 = questionCounter r1"
  proof -
    show "if close_after_kill env1 then \<exists>m. res = Some (Inl (Error m)) else res = None"
      using 1(2,4) assms(2,3)
      by (auto simp: stopRecording_def Let_def verify_recording_def file_missing_or_empty_def
               split: sum.splits option.splits if_splits)
    show "\<not> isRecording r2" "questionCounter r2 = questionCounter r1"
      using 1(2) assms(2,3)
      by (auto simp: stopRecording_def Let_def verify_recording_def file_missing_or_empty_def
               split: sum.splits option.splits if_splits)
  qed
  from start_spawns[OF 3(1) assms(4)] obtain r3 args where
    4: "startRecording env2 r2 = (Inr (question_path env2 (questionCounter r2)), r3)"
       "outputPath r3 = question_path env2 (questionCounter r2)"
       "recordingProcess r3 = Some (tool, args)"
       "last args = question_path env2 (questionCounter r2)" by blast
  have 5: "question_path env2 (questionCounter r2) = p"
    using 1 3 assms(5) by (simp add: question_path_def)
  from 2 3 4 5 show ?thesis by auto
qed

theorem failed_stop_keeps_question_counter_witness:
  "\<exists>r1 res r2 r3.
     startRecording (sox_env (Inr 0)) new_AudioRecorderService
        = (Inr ''/home/u/.config/app/recordings/question-1.wav'', r1)
     \<and> file_missing_or_empty (sox_env (Inr 0))
     \<and> stopRecording (sox_env (Inr 0)) r1 = (res, r2)
     \<and> (\<exists>m. res = Some (Inl (Error m))) \<and> \<not> isRecording r2 \<and> questionCounter r2 = 1
     \<and> startRecording (sox_env (Inr 44)) r2
        = (Inr ''/home/u/.config/app/recordings/question-1.wav'', r3)"
proof -
  have idle: "\<not> isRecording new_AudioRecorderService"
    and one: "questionCounter new_AudioRecorderService = 1"
    by (simp_all add: new_AudioRecorderService_def)
  from start_ok[OF idle sox_found, of "Inr 0"] obtain r1 where
    "startRecording (sox_env (Inr 0)) new_AudioRecorderService
       = (Inr (question_path (sox_env (Inr 0)) (questionCounter new_AudioRecorderService)), r1)"
    by blast
  then have a: "startRecording (sox_env (Inr 0)) new_AudioRecorderService
        = (Inr ''/home/u/.config/app/recordings/question-1.wav'', r1)"
    by (simp add: one question_path_sox)
  have b: "file_missing_or_empty (sox_env (Inr 0))"
    by (simp add: file_missing_or_empty_def sox_env_def)
  obtain res r2 where c: "stopRecording (sox_env (Inr 0)) r1 = (res, r2)"
    by (cases "stopRecording (sox_env (Inr 0)) r1")
  have d: "checkRecordingCapability (sox_env (Inr 44)) = Inr ''sox''" by (rule sox_found)
  have e: "userData (sox_env (Inr 44)) = userData (sox_env (Inr 0))" by (simp add: sox_env_def)
  have k: "close_after_kill (sox_env (Inr 0))" by (simp add: sox_env_def)
  have q: "questionCounter r1 = 1"
    using start_returns[OF a] by (simp add: new_AudioRecorderService_def)
  from failed_stop_keeps_question_counter[OF a b c d e] q a b c k
  show ?thesis by auto
qed

section \<open>Facts about the screenshot queue\<close>

lemmas handler_defs =
  handleTakeScreenshot_start_def handleTakeScreenshot_resume_def
  handleProcessScreenshots_start_def handleProcessScreenshots_resume_def
  handleResetQueue_start_def handleResetQueue_resume_def reset_cancel_def reset_array_def
  reset_finish_def reset_loop_def detach_def at_rest_def thrown_at_once_def
  try_catch_finally_def process_try_rest_def process_catch_def process_finally_def
  send_def call_provider_def MAX_SCREENSHOTS_def initial_system_def initial_main_def Let_def
  initialise_service_def path_join_def

lemmas concrete_defs = gemini_system_def gemini_shot_def one_shot_def shot_1_def
  gemini_config_def

text \<open>A take-screenshot intent that finds four screenshots queued changes nothing and
  returns normally.\<close>

lemma take_at_capacity_noop:
  "length (screenshotQueue st) \<ge> 4 \<Longrightarrow> handleTakeScreenshot_start st = (Settled (Inr ()), st)"
  by (simp add: handleTakeScreenshot_start_def MAX_SCREENSHOTS_def)

text \<open>When every capture settles before the next intent arrives, the queue never holds
  more than four screenshots.\<close>

lemma take_alone_bounded:
  "length (screenshotQueue st) \<le> 4 \<Longrightarrow> length (screenshotQueue (take_screenshot_alone captured st)) \<le> 4"
  by (cases captured)
     (auto simp: take_screenshot_alone_def handleTakeScreenshot_start_def handleTakeScreenshot_resume_def
           MAX_SCREENSHOTS_def send_def Let_def split: prod.splits)

lemma takes_one_at_a_time_bounded:
  "length (screenshotQueue st) \<le> 4 \<Longrightarrow>
     length (screenshotQueue (fold take_screenshot_alone cs st)) \<le> 4"
  by (induction cs arbitrary: st) (simp_all add: take_alone_bounded)

text \<open>
  C2. The capacity guard is read before the handler's awaits and the push comes after
  them: five intents that arrive while the first capture is still awaited all pass the
  guard on the empty queue, and when their captures settle the queue holds five
  screenshots.
\<close>

theorem overlapping_takes_exceed_capacity:
  "map_option (\<lambda>s. (length (screenshotQueue (main s)), pending_captures s))
     (run overlapping_takes (initial_system None)) = Some (5, 0)"
  by (simp add: overlapping_takes_def handler_defs numeral_eq_Suc)

section \<open>Facts about screenshot processing\<close>

lemma start_noop:
  "isProcessing st \<or> screenshotQueue st = [] \<Longrightarrow> handleProcessScreenshots_start st = (Settled (Inr ()), st)"
  by (simp add: handleProcessScreenshots_start_def)

lemma start_ready:
  assumes "\<not> isProcessing st" "screenshotQueue st \<noteq> []" "config st = Some c" "client_ready c st"
  shows "\<exists>st1 call. handleProcessScreenshots_start st = (Awaiting, st1)
           \<and> provider_calls st1 = provider_calls st @ [call]
           \<and> sent st1 = sent st @ [Processing_started]
           \<and> isProcessing st1 \<and> screenshotQueue st1 = screenshotQueue st \<and> config st1 = config st"
  using assms
  by (auto simp: handleProcessScreenshots_start_def client_ready_def send_def call_provider_def Let_def)

text \<open>Without a configuration the handler reports that at once, and no provider is
  reached.\<close>

lemma start_without_config:
  assumes "\<not> isProcessing st" "screenshotQueue st \<noteq> []" "config st = None"
  shows "handleProcessScreenshots_start st
           = (Settled (Inr ()), st\<lparr>sent := sent st @ [Processing_complete no_config_result]\<rparr>)"
  using assms by (simp add: handleProcessScreenshots_start_def send_def)

text \<open>
  With a configuration whose provider has no client (an empty key, or a provider that is
  neither of the two) the \<^verbatim>\<open>try\<close> block throws at once: the handler sends
  \<^verbatim>\<open>processing-started\<close> and an error result, clears the flag and returns, all before the
  next intent is handled; no provider is reached.
\<close>

lemma start_without_client:
  assumes "\<not> isProcessing st" "screenshotQueue st \<noteq> []" "config st = Some c"
    and "\<not> client_ready c st"
  shows "\<exists>st1 m. handleProcessScreenshots_start st = (Settled (Inr ()), st1)
           \<and> provider_calls st1 = provider_calls st
           \<and> sent st1 = sent st @ [Processing_started, Processing_complete (error_result m)]
           \<and> \<not> isProcessing st1 \<and> screenshotQueue st1 = screenshotQueue st
           \<and> config st1 = config st
           \<and> openai_client st1 = openai_client st \<and> genAI_client st1 = genAI_client st"
  using assms
  by (auto simp: handleProcessScreenshots_start_def client_ready_def send_def Let_def
        thrown_at_once_def try_catch_finally_def process_catch_def process_finally_def)

text \<open>A configuration that is valid for its provider gives that provider its client, when
  it is loaded and when it is saved.\<close>

lemma valid_config_initialises:
  "valid_config c \<Longrightarrow> client_ready c (initialise_service c st)"
  by (auto simp: valid_config_def client_ready_def initialise_service_def)

lemma valid_config_has_client:
  "valid_config c \<Longrightarrow> client_ready c (initial_main (Some c))"
  by (simp add: initial_main_def Let_def valid_config_initialises)

text \<open>While a job is awaited, any number of further intents change nothing.\<close>

lemma intents_while_processing:
  "isProcessing (main s) \<Longrightarrow> run (replicate n Process_queue) s = Some s"
  by (induction n) (simp_all add: start_noop)

text \<open>
  C1. A process-queue intent that finds the queue empty or the single-flight flag set
  changes nothing: no provider call, no event. Under the preconditions of the operation
  (not already processing; queue not empty; a configuration present and valid for the
  selected provider, so that the service of that provider holds its client), the first
  intent sets the flag, sends \<^verbatim>\<open>processing-started\<close> and makes one provider call; any
  number \<open>n\<close> of further intents that arrive while that call is awaited are such no-ops.
  Two intents in quick succession (\<open>n = 1\<close>) thus make exactly one provider call.
\<close>

theorem process_queue_single_flight:
  "(isProcessing st \<or> screenshotQueue st = [] \<longrightarrow>
      handleProcessScreenshots_start st = (Settled (Inr ()), st))
   \<and> (\<not> isProcessing (main s) \<and> screenshotQueue (main s) \<noteq> []
        \<and> config (main s) = Some c \<and> client_ready c (main s) \<longrightarrow>
        (\<exists>s' call. run (Process_queue # replicate n Process_queue) s = Some s'
            \<and> provider_calls (main s') = provider_calls (main s) @ [call]
            \<and> sent (main s') = sent (main s) @ [Processing_started]
            \<and> isProcessing (main s')
            \<and> in_flight s' = in_flight s @ [length (provider_calls (main s))]))"
proof (intro conjI impI)
  assume "isProcessing st \<or> screenshotQueue st = []"
  then show "handleProcessScreenshots_start st = (Settled (Inr ()), st)" by (rule start_noop)
next
  assume a: "\<not> isProcessing (main s) \<and> screenshotQueue (main s) \<noteq> []
        \<and> config (main s) = Some c \<and> client_ready c (main s)"
  then obtain st1 call where st1: "handleProcessScreenshots_start (main s) = (Awaiting, st1)"
      "provider_calls st1 = provider_calls (main s) @ [call]"
      "sent st1 = sent (main s) @ [Processing_started]" "isProcessing st1"
    using start_ready[of "main s" c] by blast
  define s1 where "s1 = s\<lparr>main := st1, in_flight := in_flight s @ [length (provider_calls st1) - 1]\<rparr>"
  have "step Process_queue s = Some s1" by (simp add: st1 s1_def)
  moreover have "run (replicate n Process_queue) s1 = Some s1"
    by (rule intents_while_processing) (simp add: s1_def st1)
  ultimately have "run (Process_queue # replicate n Process_queue) s = Some s1" by simp
  moreover have "provider_calls (main s1) = provider_calls (main s) @ [call]"
    "sent (main s1) = sent (main s) @ [Processing_started]" "isProcessing (main s1)"
    "in_flight s1 = in_flight s @ [length (provider_calls (main s))]"
    by (simp_all add: s1_def st1)
  ultimately show "\<exists>s' call. run (Process_queue # replicate n Process_queue) s = Some s'
            \<and> provider_calls (main s') = provider_calls (main s) @ [call]
            \<and> sent (main s') = sent (main s) @ [Processing_started]
            \<and> isProcessing (main s')
            \<and> in_flight s' = in_flight s @ [length (provider_calls (main s))]" by blast
qed

text \<open>No intent on the empty queue; two intents on one queued screenshot under the Gemini
  configuration.\<close>

theorem process_queue_single_flight_witness:
  "handleProcessScreenshots_start (initial_main None) = (Settled (Inr ()), initial_main None)
   \<and> (\<exists>s'. run [Process_queue, Process_queue] gemini_system = Some s'
         \<and> provider_calls (main s') = [Gemini_processImages [''data:image/png;base64,iVBOR'']]
         \<and> sent (main s') = [Processing_started]
         \<and> in_flight s' = [0])"
proof -
  have e: "isProcessing (initial_main None) \<or> screenshotQueue (initial_main None) = []"
    by (simp add: initial_main_def)
  have g: "\<not> isProcessing (main gemini_system) \<and> screenshotQueue (main gemini_system) \<noteq> []
       \<and> config (main gemini_system) = Some gemini_config
       \<and> client_ready gemini_config (main gemini_system)"
    by (simp add: concrete_defs at_rest_def initial_main_def client_ready_def
          initialise_service_def)
  have pc: "provider_calls (main gemini_system) = []" "sent (main gemini_system) = []"
    "in_flight gemini_system = []"
    by (simp_all add: concrete_defs at_rest_def initial_main_def initialise_service_def)
  from process_queue_single_flight[of "initial_main None" gemini_system gemini_config 1] e
  have 1: "handleProcessScreenshots_start (initial_main None) = (Settled (Inr ()), initial_main None)"
    by blast
  from process_queue_single_flight[of "initial_main None" gemini_system gemini_config 1] g
  obtain s' call where s': "run [Process_queue, Process_queue] gemini_system = Some s'"
      "provider_calls (main s') = provider_calls (main gemini_system) @ [call]"
      "sent (main s') = sent (main gemini_system) @ [Processing_started]"
      "in_flight s' = in_flight gemini_system @ [length (provider_calls (main gemini_system))]"
    by auto
  moreover have "\<exists>s. run [Process_queue, Process_queue] gemini_system = Some s
      \<and> provider_calls (main s) = [Gemini_processImages [''data:image/png;base64,iVBOR'']]"
    by (simp add: concrete_defs handler_defs)
  ultimately show ?thesis using 1 pc by auto
qed

text \<open>
  Outside those preconditions two intents in succession reach no provider. With no
  configuration each reports that; with the Gemini configuration loaded with an empty key
  each starts, fails at once on the missing client and reports the error, so the flag is
  clear again when the second arrives.
\<close>

lemma two_intents_without_config:
  "map_option (\<lambda>s. (provider_calls (main s), sent (main s), in_flight s))
     (run [Process_queue, Process_queue] (at_rest one_shot))
   = Some ([], [Processing_complete no_config_result, Processing_complete no_config_result], [])"
  by (simp add: one_shot_def handler_defs)

lemma two_intents_without_client:
  "map_option (\<lambda>s. (provider_calls (main s), sent (main s), isProcessing (main s), in_flight s))
     (run [Process_queue, Process_queue] keyless_system)
   = Some ([],
           [Processing_started,
            Processing_complete
              (error_result ''Google AI client not initialized. Please configure your API key.''),
            Processing_started,
            Processing_complete
              (error_result ''Google AI client not initialized. Please configure your API key.'')],
           False, [])"
  by (simp add: keyless_system_def keyless_config_def gemini_config_def one_shot_def handler_defs
        errorMessage_def genAI_not_initialized_def)

subsection \<open>A provider call that fails\<close>

lemma completions_append: "completions (xs @ ys) = completions xs @ completions ys"
  by (induction xs rule: completions.induct) auto

lemma run_append: "run (as @ bs) s = (case run as s of None \<Rightarrow> None | Some s1 \<Rightarrow> run bs s1)"
  by (induction as arbitrary: s) (auto split: option.splits)

lemma resume_failed:
  assumes "isProcessing st"
  shows "handleProcessScreenshots_resume (Inl e) st =
     (Inr (), st\<lparr>sent := sent st @ [Processing_complete (error_result (errorMessage e))],
                 isProcessing := False\<rparr>)"
  using assms
  by (simp add: handleProcessScreenshots_resume_def try_catch_finally_def process_try_rest_def
        process_catch_def process_finally_def send_def)

lemma resume_returns: "fst (handleProcessScreenshots_resume reply st) = Inr ()"
  by (cases reply)
     (simp_all add: handleProcessScreenshots_resume_def try_catch_finally_def
        process_try_rest_def process_catch_def process_finally_def)

text \<open>The deletion loop of a reset touches neither the flag nor the provider calls, and
  sends at most \<^verbatim>\<open>queue-reset\<close>.\<close>

lemma reset_loop_facts:
  assumes "reset_loop rr st = (r, st1)"
  shows "isProcessing st1 = isProcessing st" "provider_calls st1 = provider_calls st"
    "sent st1 = sent st \<or> sent st1 = sent st @ [Queue_reset]"
  using assms by (auto simp: reset_loop_def reset_finish_def send_def split: if_splits)

lemma reset_resume_facts:
  assumes "handleResetQueue_resume refused rr st = (r, st1)"
  shows "isProcessing st1 = isProcessing st" "provider_calls st1 = provider_calls st"
    "sent st1 = sent st \<or> sent st1 = sent st @ [Queue_reset]"
  using assms
  by (auto simp: handleResetQueue_resume_def Let_def reset_loop_def reset_finish_def send_def
           split: if_splits)

lemma reset_start_calls:
  "handleResetQueue_start st = (r, st1) \<Longrightarrow> provider_calls st1 = provider_calls st"
  by (auto simp: handleResetQueue_start_def reset_cancel_def reset_loop_def reset_finish_def
        send_def split: if_splits)

text \<open>While the flag is set, intents to capture or to process, captures and the unlinks of
  a reset leave the flag, the suspended jobs and the provider calls alone and send no
  result.\<close>

lemma quiet_step:
  assumes "isProcessing (main s)" "step a s = Some s'"
    and "a = Take_screenshot \<or> a = Process_queue \<or> (\<exists>captured. a = Capture_settles captured)
         \<or> (\<exists>k refused. a = Unlink_settles k refused)"
  shows "isProcessing (main s') \<and> in_flight s' = in_flight s
         \<and> provider_calls (main s') = provider_calls (main s)
         \<and> (\<exists>new. sent (main s') = sent (main s) @ new \<and> completions new = [])"
proof (cases a)
  case Take_screenshot
  with assms show ?thesis
    by (auto simp: handleTakeScreenshot_start_def split: if_splits)
next
  case (Capture_settles captured)
  with assms show ?thesis
    by (cases captured)
       (auto simp: handleTakeScreenshot_resume_def send_def Let_def
             split: if_splits prod.splits)
next
  case Process_queue
  with assms show ?thesis by (simp add: start_noop)
next
  case (Provider_settles j reply)
  with assms show ?thesis by simp
next
  case Reset_queue
  with assms show ?thesis by simp
next
  case (Unlink_settles k refused)
  obtain r st1 where h: "handleResetQueue_resume refused (resets s ! k) (main s) = (r, st1)"
    by (cases "handleResetQueue_resume refused (resets s ! k) (main s)")
  with assms(2) Unlink_settles have m: "main s' = st1" "in_flight s' = in_flight s"
    by (auto split: if_splits option.splits)
  from reset_resume_facts[OF h] have
    "\<exists>new. sent st1 = sent (main s) @ new \<and> completions new = []"
    by (elim disjE) (auto intro: exI[of _ "[Queue_reset]"])
  with reset_resume_facts(1,2)[OF h] m assms(1) show ?thesis by simp
qed

text \<open>Calls are numbered in the order issued, so a call that has settled never comes back
  in flight.\<close>

lemma resume_calls: "provider_calls (snd (handleProcessScreenshots_resume reply st)) = provider_calls st"
  by (cases reply)
     (simp_all add: handleProcessScreenshots_resume_def try_catch_finally_def process_try_rest_def
        process_catch_def process_finally_def send_def)

lemma take_resume_calls: "provider_calls (snd (handleTakeScreenshot_resume captured st)) = provider_calls st"
  by (cases captured) (auto simp: handleTakeScreenshot_resume_def send_def Let_def)

lemma start_calls:
  "handleProcessScreenshots_start st = (Awaiting, st1) \<Longrightarrow>
     length (provider_calls st1) = Suc (length (provider_calls st))"
  by (auto simp: handleProcessScreenshots_start_def send_def call_provider_def Let_def
        thrown_at_once_def try_catch_finally_def process_catch_def process_finally_def
           split: if_splits option.splits prod.splits)

lemma start_settled_calls:
  "handleProcessScreenshots_start st = (Settled r, st1) \<Longrightarrow> provider_calls st1 = provider_calls st"
  by (auto simp: handleProcessScreenshots_start_def send_def call_provider_def Let_def
        thrown_at_once_def try_catch_finally_def process_catch_def process_finally_def
           split: if_splits option.splits prod.splits)

lemma gone_step:
  assumes "job_gone j s" "step a s = Some s'"
  shows "job_gone j s'"
proof (cases a)
  case Take_screenshot
  with assms show ?thesis
    by (auto simp: job_gone_def handleTakeScreenshot_start_def split: if_splits)
next
  case (Capture_settles captured)
  with assms show ?thesis
    by (auto simp: job_gone_def take_resume_calls split: if_splits)
next
  case Process_queue
  show ?thesis
  proof (cases "handleProcessScreenshots_start (main s)")
    case (Pair pr st1)
    show ?thesis
    proof (cases pr)
      case (Settled r)
      with Pair Process_queue assms start_settled_calls[of "main s" r st1] show ?thesis
        by (auto simp: job_gone_def)
    next
      case Awaiting
      with Pair Process_queue assms start_calls[of "main s" st1] show ?thesis
        by (auto simp: job_gone_def)
    qed
  qed
next
  case (Provider_settles k reply)
  with assms show ?thesis
    by (auto simp: job_gone_def resume_calls split: if_splits)
next
  case Reset_queue
  obtain r st1 where h: "handleResetQueue_start (main s) = (r, st1)"
    by (cases "handleResetQueue_start (main s)")
  with assms Reset_queue reset_start_calls[OF h] show ?thesis
    by (auto simp: job_gone_def split: option.splits)
next
  case (Unlink_settles k refused)
  obtain r st1 where h: "handleResetQueue_resume refused (resets s ! k) (main s) = (r, st1)"
    by (cases "handleResetQueue_resume refused (resets s ! k) (main s)")
  with assms Unlink_settles reset_resume_facts(2)[OF h] show ?thesis
    by (auto simp: job_gone_def split: option.splits if_splits)
qed

lemma waiting_step:
  assumes w: "job_waiting stale j base s" and u: "undisturbed stale a" and st: "step a s = Some s'"
  shows "job_waiting stale j base s' \<or> job_gone j s'"
proof (cases "\<exists>k reply. a = Provider_settles k reply")
  case True
  then obtain k reply where a: "a = Provider_settles k reply" by blast
  with u st have k: "k \<notin> set stale" "k \<in> set (in_flight s)" by (auto split: if_splits)
  with w have "k = j" by (auto simp: job_waiting_def)
  with a w st k have "job_gone j s'"
    by (auto simp: job_waiting_def job_gone_def resume_calls split: if_splits)
  then show ?thesis ..
next
  case False
  with u have q: "a = Take_screenshot \<or> a = Process_queue \<or> (\<exists>captured. a = Capture_settles captured)
      \<or> (\<exists>k refused. a = Unlink_settles k refused)"
    by (cases a) auto
  from w obtain new where
    n: "isProcessing (main s)" "in_flight s = stale @ [j]" "j < length (provider_calls (main s))"
       "sent (main s) = base @ new" "completions new = []"
    by (auto simp: job_waiting_def)
  from quiet_step[OF n(1) st q] obtain new' where
    n': "isProcessing (main s')" "in_flight s' = in_flight s"
        "provider_calls (main s') = provider_calls (main s)"
        "sent (main s') = sent (main s) @ new'" "completions new' = []"
    by blast
  have "sent (main s') = base @ (new @ new') \<and> completions (new @ new') = []"
    using n n' by (simp add: completions_append)
  then have "\<exists>x. sent (main s') = base @ x \<and> completions x = []" by blast
  with n n' have "job_waiting stale j base s'" by (simp add: job_waiting_def)
  then show ?thesis ..
qed

lemma waiting_run:
  "list_all (undisturbed stale) as \<Longrightarrow> job_waiting stale j base s \<or> job_gone j s \<Longrightarrow>
     run as s = Some s' \<Longrightarrow> job_waiting stale j base s' \<or> job_gone j s'"
proof (induction as arbitrary: s)
  case Nil
  then show ?case by simp
next
  case (Cons a as)
  from Cons.prems obtain s1 where s1: "step a s = Some s1" "run as s1 = Some s'"
    by (auto split: option.splits)
  from Cons.prems s1 have "job_waiting stale j base s1 \<or> job_gone j s1"
    using waiting_step[of stale j base s a s1] gone_step[of j s a s1] by auto
  with Cons.IH[of s1] Cons.prems s1 show ?case by simp
qed

lemma error_result_fields:
  "js_field (error_result m) ''approach'' = Some (JString ''Error occurred while processing'')"
  "js_field (error_result m) ''timeComplexity'' = Some (JString ''N/A'')"
  "js_field (error_result m) ''spaceComplexity'' = Some (JString ''N/A'')"
  "js_field (error_result m) ''code'' = Some (JString (''Error: '' @ m))"
  by (simp_all add: error_result_def)

lemma errorMessage_cases:
  "error_message e = Some n \<Longrightarrow> n \<noteq> [] \<Longrightarrow> errorMessage e = n"
  "error_message e = None \<or> error_message e = Some [] \<Longrightarrow> message e = Some m \<Longrightarrow> m \<noteq> []
     \<Longrightarrow> errorMessage e = m"
  by (auto simp: errorMessage_def)

text \<open>
  A process-queue intent starts a job (flag clear, queue not empty, a configuration
  loaded whose provider has its client); any actions may follow except a reset intent and
  the settling of a call that was already in flight when the job began; then the
  provider call of the job fails with \<open>e\<close>. Over the whole run exactly one
  \<^verbatim>\<open>processing-complete\<close> event is sent, carrying the error result made from \<open>e\<close>, and the
  flag is clear at the end.
\<close>

lemma failed_call_is_reported_when_undisturbed:
  assumes idle: "\<not> isProcessing (main s0)" "screenshotQueue (main s0) \<noteq> []"
      "config (main s0) = Some c" "client_ready c (main s0)"
    and btw: "list_all (undisturbed (in_flight s0)) between"
    and r: "run (Process_queue # between
                  @ [Provider_settles (length (provider_calls (main s0))) (Inl e)]) s0 = Some s'"
  shows "\<exists>new. sent (main s') = sent (main s0) @ new
           \<and> completions new = [error_result (errorMessage e)]
           \<and> \<not> isProcessing (main s')"
proof -
  let ?j = "length (provider_calls (main s0))"
  from start_ready[OF idle] obtain st1 call where
    st1: "handleProcessScreenshots_start (main s0) = (Awaiting, st1)"
      "provider_calls st1 = provider_calls (main s0) @ [call]"
      "sent st1 = sent (main s0) @ [Processing_started]" "isProcessing st1" by blast
  define s1 where "s1 = s0\<lparr>main := st1, in_flight := in_flight s0 @ [?j]\<rparr>"
  have step1: "step Process_queue s0 = Some s1" by (simp add: st1 s1_def)
  with r have r2: "run (between @ [Provider_settles ?j (Inl e)]) s1 = Some s'" by simp
  then obtain s2 where
    s2: "run between s1 = Some s2" "step (Provider_settles ?j (Inl e)) s2 = Some s'"
    by (auto simp: run_append split: option.splits)
  have w1: "job_waiting (in_flight s0) ?j (sent st1) s1"
    by (simp add: job_waiting_def s1_def st1)
  from waiting_run[OF btw _ s2(1), of ?j "sent st1"] w1
  have "job_waiting (in_flight s0) ?j (sent st1) s2 \<or> job_gone ?j s2" by blast
  moreover from s2(2) have "?j \<in> set (in_flight s2)" by (auto split: if_splits)
  ultimately have w2: "job_waiting (in_flight s0) ?j (sent st1) s2" by (auto simp: job_gone_def)
  then obtain new where
    n: "isProcessing (main s2)" "sent (main s2) = sent st1 @ new" "completions new = []"
    by (auto simp: job_waiting_def)
  from s2(2) have s': "main s' = snd (handleProcessScreenshots_resume (Inl e) (main s2))"
    by (auto split: if_splits)
  with resume_failed[OF n(1), of e] have
     "sent (main s') = sent (main s2) @ [Processing_complete (error_result (errorMessage e))]"
     "\<not> isProcessing (main s')" by simp_all
  with n st1 show ?thesis by (simp add: completions_append)
qed

text \<open>The run \<open>failed_trace\<close> from one queued screenshot under the Gemini configuration: the
  failure is reported.\<close>

lemma failed_trace_is_reported:
  "map_option (\<lambda>s. (completions (sent (main s)), isProcessing (main s)))
     (run failed_trace gemini_system)
   = Some ([error_result ''Gemini processing failed: quota''], False)"
  by (simp add: failed_trace_def quota_error_def concrete_defs handler_defs errorMessage_def)

subsection \<open>A reset while a provider call is in flight\<close>

text \<open>A continuation that finds the flag clear sends nothing.\<close>

lemma suppressed_when_flag_clear:
  "\<not> isProcessing st \<Longrightarrow> handleProcessScreenshots_resume reply st = (Inr (), st)"
  by (cases reply) (simp_all add: handleProcessScreenshots_resume_def try_catch_finally_def
     process_try_rest_def process_catch_def process_finally_def)

text \<open>
  C3. The run \<open>stale_trace\<close>: job 0 is in flight when the reset clears the flag; a second
  job sets the flag again before the call of job 0 returns, so the continuation of job 0
  finds the flag set and sends its result after the \<^verbatim>\<open>queue-reset\<close>, then clears the
  flag although job 1 is still in flight.
\<close>

theorem stale_result_is_sent_after_reset:
  "map_option (\<lambda>s. (drop 3 (sent (main s)), isProcessing (main s), in_flight s))
     (run stale_trace (initial_system (Some gemini_config)))
   = Some ([Queue_reset,
            Screenshot_taken \<lparr> screenshot_id = 2, preview = ''data:image/png;base64,iVBOR'',
                               path = ''/tmp/screenshots/2.png'' \<rparr>,
            Processing_started,
            Processing_complete solution_A], False, [1])"
  by (simp add: stale_trace_def handler_defs gemini_config_def string_of_nat.simps digit_char_def)

text \<open>When the call of job 1 then returns, its continuation finds the flag clear and its
  result is never sent.\<close>

lemma second_result_is_dropped:
  "map_option (\<lambda>s. (completions (sent (main s))))
     (run (stale_trace @ [Provider_settles 1 (Inr solution_B)]) (initial_system (Some gemini_config)))
   = Some [cancelled_result, solution_A]"
  by (simp add: stale_trace_def handler_defs gemini_config_def string_of_nat.simps digit_char_def)

text \<open>
  C4. The run \<open>swallowed_trace\<close>: job 1 is started after the reset has returned and no reset
  follows it, but the late continuation of job 0 has cleared the flag that job 1 had
  set. When the provider call of job 1 then fails, the \<^verbatim>\<open>catch\<close> block finds the flag clear
  (``Check if processing was cancelled'') and returns without a word: the only results
  ever sent are the cancellation of job 0 and the stale result of job 0, and no error
  result for the call that failed. Nothing is left suspended.
\<close>

theorem failed_call_after_stale_result_is_not_reported:
  "map_option (\<lambda>s. (drop 4 (sent (main s)), completions (sent (main s)),
                    isProcessing (main s), in_flight s, resets s))
     (run swallowed_trace (initial_system (Some gemini_config)))
   = Some ([Screenshot_taken \<lparr> screenshot_id = 2, preview = ''data:image/png;base64,iVBOR'',
                               path = ''/tmp/screenshots/2.png'' \<rparr>,
            Processing_started,
            Processing_complete solution_A],
           [cancelled_result, solution_A], False, [], [])"
  by (simp add: swallowed_trace_def quota_error_def stale_trace_def handler_defs gemini_config_def
        string_of_nat.simps digit_char_def)

section \<open>Facts about reset\<close>

text \<open>A run of the reset handler that comes to its end leaves the queue empty and has
  sent \<^verbatim>\<open>queue-reset\<close> last.\<close>

lemma reset_loop_done:
  "reset_loop rr st = (None, st1) \<Longrightarrow> screenshotQueue st1 = [] \<and> sent st1 = sent st @ [Queue_reset]"
  by (auto simp: reset_loop_def reset_finish_def send_def split: if_splits)

text \<open>The index a suspended reset waits at stays inside its array, whatever runs in
  between: the queue only grows by pushes, and an array that is replaced keeps its content.\<close>

lemma detach_array:
  "reset_array st' (detach (screenshotQueue st) rr) = reset_array st rr"
  by (simp add: detach_def reset_array_def split: option.splits)

lemma detach_position: "position (detach old rr) = position rr"
  by (simp add: detach_def split: option.splits)

lemma in_range_grow:
  assumes "resets_in_range s" "resets s' = resets s"
    and "\<exists>more. screenshotQueue (main s') = screenshotQueue (main s) @ more"
  shows "resets_in_range s'"
  using assms
  by (auto simp: resets_in_range_def list_all_iff reset_array_def split: option.splits)

lemma in_range_detached:
  assumes "resets_in_range s" "set rs \<subseteq> set (resets s)"
    and "resets s' = map (detach (screenshotQueue (main s))) rs"
  shows "resets_in_range s'"
  using assms
  by (auto simp: resets_in_range_def list_all_iff detach_array detach_position)

lemma take_resume_queue:
  "\<exists>more. screenshotQueue (snd (handleTakeScreenshot_resume captured st)) = screenshotQueue st @ more"
  by (cases captured) (auto simp: handleTakeScreenshot_resume_def send_def Let_def)

lemma process_start_queue:
  "screenshotQueue (snd (handleProcessScreenshots_start st)) = screenshotQueue st"
  by (auto simp: handleProcessScreenshots_start_def send_def call_provider_def Let_def
        thrown_at_once_def try_catch_finally_def process_catch_def process_finally_def
      split: option.splits)

lemma process_resume_queue:
  "screenshotQueue (snd (handleProcessScreenshots_resume reply st)) = screenshotQueue st"
  by (cases reply)
     (simp_all add: handleProcessScreenshots_resume_def try_catch_finally_def process_try_rest_def
        process_catch_def process_finally_def send_def)

lemma resets_in_range_step:
  assumes inv: "resets_in_range s" and st: "step a s = Some s'"
  shows "resets_in_range s'"
proof (cases a)
  case Take_screenshot
  with st have "resets s' = resets s" "screenshotQueue (main s') = screenshotQueue (main s) @ []"
    by (auto simp: handleTakeScreenshot_start_def split: if_splits)
  with inv show ?thesis by (blast intro: in_range_grow)
next
  case (Capture_settles captured)
  with st have "resets s' = resets s"
    "main s' = snd (handleTakeScreenshot_resume captured (main s))"
    by (auto split: if_splits)
  with inv take_resume_queue[of captured "main s"] show ?thesis
    by (auto intro: in_range_grow)
next
  case Process_queue
  with st have "resets s' = resets s" "main s' = snd (handleProcessScreenshots_start (main s))"
    by (auto split: prod.splits progress.splits)
  with inv process_start_queue[of "main s"] show ?thesis
    by (auto intro: in_range_grow)
next
  case (Provider_settles j reply)
  with st have "resets s' = resets s"
    "main s' = snd (handleProcessScreenshots_resume reply (main s))"
    by (auto split: if_splits)
  with inv process_resume_queue[of reply "main s"] show ?thesis
    by (auto intro: in_range_grow)
next
  case Reset_queue
  show ?thesis
  proof (cases "screenshotQueue (main s) = []")
    case True
    with st Reset_queue have "resets s' = map (detach (screenshotQueue (main s))) (resets s)"
      by (auto simp: handleResetQueue_start_def reset_loop_def reset_array_def reset_cancel_def
            send_def split: if_splits)
    with inv show ?thesis by (auto intro: in_range_detached)
  next
    case False
    with st Reset_queue have
      "resets s' = resets s @ [\<lparr> iterated = None, position = 0 \<rparr>]"
      "screenshotQueue (main s') = screenshotQueue (main s)"
      by (auto simp: handleResetQueue_start_def reset_loop_def reset_array_def reset_cancel_def
            send_def split: if_splits)
    with inv False show ?thesis
      by (auto simp: resets_in_range_def list_all_iff reset_array_def split: option.splits)
  qed
next
  case (Unlink_settles k refused)
  let ?rr = "resets s ! k"
  let ?rr1 = "?rr\<lparr>position := position ?rr + 1\<rparr>"
  from st Unlink_settles have k: "k < length (resets s)"
    by (auto split: if_splits)
  show ?thesis
  proof (cases "position ?rr1 < length (reset_array (main s) ?rr1)")
    case True
    with st Unlink_settles k have
      "resets s' = (resets s)[k := ?rr1]" "screenshotQueue (main s') = screenshotQueue (main s)"
      by (auto simp: handleResetQueue_resume_def reset_loop_def reset_array_def Let_def
            split: if_splits option.splits)
    with inv True k show ?thesis
      by (auto simp: resets_in_range_def list_all_iff reset_array_def
               dest!: set_update_subset_insert[THEN subsetD] split: option.splits)
  next
    case False
    with st Unlink_settles k have
      "resets s' = map (detach (screenshotQueue (main s))) (take k (resets s) @ drop (Suc k) (resets s))"
      by (auto simp: handleResetQueue_resume_def reset_loop_def reset_array_def Let_def
            split: if_splits option.splits)
    moreover have "set (take k (resets s) @ drop (Suc k) (resets s)) \<subseteq> set (resets s)"
      by (auto dest: in_set_takeD in_set_dropD)
    ultimately show ?thesis using inv by (blast intro: in_range_detached)
  qed
qed

lemma resets_in_range_run:
  "resets_in_range s \<Longrightarrow> run as s = Some s' \<Longrightarrow> resets_in_range s'"
proof (induction as arbitrary: s)
  case Nil
  then show ?case by simp
next
  case (Cons a as)
  from Cons.prems obtain s1 where s1: "step a s = Some s1" "run as s1 = Some s'"
    by (auto split: option.splits)
  from resets_in_range_step[OF Cons.prems(1) s1(1)] Cons.IH[OF _ s1(2)] show ?case by blast
qed

lemma resets_in_range_at_rest: "resets_in_range (at_rest st)"
  by (simp add: resets_in_range_def at_rest_def)

text \<open>So in every state the event loop reaches from rest, the continuation of each
  suspended reset can run.\<close>

lemma unlink_can_settle:
  assumes "run as (at_rest st) = Some s" "k < length (resets s)"
  shows "step (Unlink_settles k refused) s \<noteq> None"
proof -
  from resets_in_range_run[OF resets_in_range_at_rest assms(1)] assms(2)
  have "position (resets s ! k) < length (reset_array (main s) (resets s ! k))"
    by (simp add: resets_in_range_def list_all_length)
  with assms(2) show ?thesis by (simp split: prod.splits option.splits)
qed

text \<open>
  The handler is not one step: a process-queue intent handled while the unlink of the
  reset is awaited finds the flag clear and the queue still full, so when the reset
  returns the queue is empty but the flag is set and a provider call is in flight with
  the screenshot that has just been deleted.
\<close>

lemma intent_during_reset:
  "map_option (\<lambda>s. (screenshotQueue (main s), screenshot_files (main s), isProcessing (main s),
                    provider_calls (main s), in_flight s, resets s))
     (run [Reset_queue, Process_queue, Unlink_settles 0 False] gemini_shot_on_disk)
   = Some ([], {}, True, [Gemini_processImages [''data:image/png;base64,iVBOR'']], [0], [])"
  by (simp add: gemini_shot_on_disk_def concrete_defs handler_defs)

text \<open>No listener of the renderer removes an entry of the history: whatever the main
  process sends, the entries stay.\<close>

lemma listener_keeps_history: "\<exists>items. history (listener now ev a) = items @ history a"
  by (cases ev)
     (auto simp: onScreenshotTaken_def onProcessingStarted_def onProcessingComplete_def
        onQueueReset_def onRecordingToggled_def onRecordingError_def onAudioProcessingStarted_def
        onAudioStreamChunk_def onAudioProcessingComplete_def onAudioProcessingError_def
        onAudioQueueReset_def Let_def)

lemma deliver_keeps_history: "\<exists>items. history (deliver now evs a) = items @ history a"
proof (induction evs arbitrary: a)
  case Nil
  then show ?case by simp
next
  case (Cons ev evs)
  from listener_keeps_history[of now ev a] obtain i1 where
    1: "history (listener now ev a) = i1 @ history a" by blast
  from Cons.IH[of "listener now ev a"] obtain i2 where
    2: "history (deliver now evs (listener now ev a)) = i2 @ history (listener now ev a)" by blast
  from 1 2 have "history (deliver now (ev # evs) a) = (i2 @ i1) @ history a" by simp
  then show ?case by blast
qed

text \<open>So a reset that reaches the main process alone, however its run is interleaved with
  other handlers, leaves every history entry where it was.\<close>

lemma reset_in_main_keeps_history:
  "\<exists>items. history (renderer_after now s s' a) = items @ history a"
  by (simp add: renderer_after_def deliver_keeps_history)

text \<open>The sibling path: the renderer's own \<^verbatim>\<open>handleReset\<close>, which invokes the same handler
  of the main process, ends with the history empty.\<close>

lemma handleReset_clears_history:
  "handleReset now during (s, a) = Some (s', a') \<Longrightarrow> history a' = [] \<and> currentItem a' = None"
  by (auto simp: handleReset_def handleReset_after_resetAudioQueue_def Let_def split: option.splits)

lemma handleReset_on_disk:
  "map_option (\<lambda>sa. (screenshotQueue (main (fst sa)), screenshot_files (main (fst sa)),
                     history (snd sa), screenshots (snd sa)))
     (handleReset 9 [Unlink_settles 0 False] (gemini_shot_on_disk, App_with_history))
   = Some ([], {}, [], [])"
  by (simp add: handleReset_def renderer_after_def handleReset_after_resetQueue_def
        handleReset_after_resetAudioQueue_def handleResetAudioQueue_def
        gemini_shot_on_disk_def concrete_defs handler_defs App_with_history_def
        onProcessingComplete_def onQueueReset_def onAudioQueueReset_def initial_App_def)

text \<open>
  C9. One question has been solved (the history holds its entry) and one screenshot is
  queued, its file on disk. Ctrl+R is pressed: the global shortcut runs
  \<^verbatim>\<open>handleResetQueue\<close> of the main process, which unlinks the file, empties the queue and
  sends \<^verbatim>\<open>queue-reset\<close>; the listener of that event clears the screenshot list of the
  renderer. The history still holds the entry: nothing on this path clears it.
\<close>

theorem reset_by_shortcut_keeps_history:
  "map_option (\<lambda>s. (screenshotQueue (main s), screenshot_files (main s), resets s,
                    drop (length (sent (main gemini_shot_on_disk))) (sent (main s)),
                    screenshots (renderer_after 9 gemini_shot_on_disk s App_with_history),
                    history (renderer_after 9 gemini_shot_on_disk s App_with_history)))
     (run [Reset_queue, Unlink_settles 0 False] gemini_shot_on_disk)
   = Some ([], {}, [], [Queue_reset], [],
           [\<lparr> item_id = 7, item_type = ''screenshot'', item_timestamp = 7,
              item_result = Inl solution_A, item_screenshots = Some [] \<rparr>])"
  by (simp add: renderer_after_def gemini_shot_on_disk_def concrete_defs handler_defs
        App_with_history_def onProcessingComplete_def onQueueReset_def initial_App_def)

section \<open>Facts about audio\<close>

lemma stream_loop_eq:
  "stream_loop chunks (n, h, d) =
     (n + length chunks, h \<or> (\<exists>c \<in> set chunks. chunk_text c \<noteq> None),
      d @ List.map_filter chunk_text chunks)"
  by (induction chunks arbitrary: n h d) (auto simp: List.map_filter_simps split: option.splits)

lemma map_filter_Nil: "(\<forall>c \<in> set chunks. chunk_text c = None) \<Longrightarrow> List.map_filter chunk_text chunks = []"
  by (induction chunks) (auto simp: List.map_filter_simps)

lemma no_content_iff: "no_content chunks = (\<forall>c \<in> set chunks. chunk_text c = None)"
  by (simp add: no_content_def list_all_iff)

lemma stream_without_content:
  assumes "no_content chunks"
  shows "filter is_fallback (calls_made (processAudioStream True a (Inr (chunks, None)) fallback))
        = [Gemini_generateContent a]"
    and "on_chunk (processAudioStream True a (Inr (chunks, None)) fallback)
        = (case fallback of
             Inl e \<Rightarrow> []
           | Inr fallbackResponse \<Rightarrow>
               if response_text fallbackResponse = [] then [] else [response_text fallbackResponse])"
    and "outcome (processAudioStream True a (Inr (chunks, None)) fallback)
        = (case fallback of Inl e \<Rightarrow> Inl (audio_catch e) | Inr fallbackResponse \<Rightarrow> Inr ())"
  using assms
  by (auto simp: processAudioStream_def stream_loop_eq map_filter_Nil no_content_iff
           split: sum.splits)

lemma stream_with_content:
  assumes "\<not> no_content chunks"
  shows "filter is_fallback (calls_made (processAudioStream True a (Inr (chunks, None)) fallback)) = []"
    and "on_chunk (processAudioStream True a (Inr (chunks, None)) fallback)
          = List.map_filter chunk_text chunks"
    and "outcome (processAudioStream True a (Inr (chunks, None)) fallback) = Inr ()"
  using assms
  by (auto simp: processAudioStream_def stream_loop_eq no_content_iff split: sum.splits)

text \<open>
  C8 (as amended). The client is initialised and the stream ends normally. If no chunk
  carried text, exactly one fallback \<^verbatim>\<open>generateContent\<close> call is made; when it returns a
  non-empty text that text is handed to the chunk callback as one chunk, when its text is
  empty or missing nothing is handed over, and when it throws the run fails. If some
  chunk carried text, no fallback call is made and the texts of the chunks that carry
  one are handed over in arrival order.
\<close>

theorem audio_stream_fallback:
  "(no_content chunks \<longrightarrow>
      filter is_fallback (calls_made (processAudioStream True a (Inr (chunks, None)) fallback))
        = [Gemini_generateContent a]
      \<and> on_chunk (processAudioStream True a (Inr (chunks, None)) fallback)
        = (case fallback of
             Inl e \<Rightarrow> []
           | Inr fallbackResponse \<Rightarrow>
               if response_text fallbackResponse = [] then [] else [response_text fallbackResponse])
      \<and> outcome (processAudioStream True a (Inr (chunks, None)) fallback)
        = (case fallback of Inl e \<Rightarrow> Inl (audio_catch e) | Inr fallbackResponse \<Rightarrow> Inr ()))
   \<and> (\<not> no_content chunks \<longrightarrow>
      filter is_fallback (calls_made (processAudioStream True a (Inr (chunks, None)) fallback)) = []
      \<and> on_chunk (processAudioStream True a (Inr (chunks, None)) fallback)
          = List.map_filter chunk_text chunks
      \<and> outcome (processAudioStream True a (Inr (chunks, None)) fallback) = Inr ())"
  using stream_without_content[of chunks a fallback] stream_with_content[of chunks a fallback]
  by blast

theorem audio_stream_fallback_witness:
  "no_content [text_response []]
   \<and> processAudioStream True ''UklGR'' (Inr ([text_response []], None)) (Inr (text_response ''Use a stack.''))
      = \<lparr> on_chunk = [''Use a stack.''],
          calls_made = [Gemini_generateContentStream ''UklGR'', Gemini_generateContent ''UklGR''],
          outcome = Inr () \<rparr>
   \<and> \<not> no_content [text_response ''Hello '', text_response [], text_response ''world'']
   \<and> processAudioStream True ''UklGR''
        (Inr ([text_response ''Hello '', text_response [], text_response ''world''], None))
        (Inr (text_response ''unused''))
      = \<lparr> on_chunk = [''Hello '', ''world''],
          calls_made = [Gemini_generateContentStream ''UklGR''],
          outcome = Inr () \<rparr>"
proof -
  have n: "no_content [text_response []]"
    by (simp add: no_content_def chunk_text_def first_part_text_def text_response_def)
  have c: "\<not> no_content [text_response ''Hello '', text_response [], text_response ''world'']"
    by (simp add: no_content_def chunk_text_def first_part_text_def text_response_def)
  have r: "response_text (text_response ''Use a stack.'') = ''Use a stack.''"
    by (simp add: response_text_def first_part_text_def text_response_def)
  have m: "List.map_filter chunk_text [text_response ''Hello '', text_response [], text_response ''world'']
      = [''Hello '', ''world'']"
    by (simp add: List.map_filter_simps chunk_text_def first_part_text_def text_response_def)
  have cm1: "calls_made (processAudioStream True ''UklGR'' (Inr ([text_response []], None)) (Inr (text_response ''Use a stack.'')))
      = [Gemini_generateContentStream ''UklGR'', Gemini_generateContent ''UklGR'']"
    using n by (simp add: processAudioStream_def stream_loop_eq no_content_iff)
  have cm2: "calls_made (processAudioStream True ''UklGR''
        (Inr ([text_response ''Hello '', text_response [], text_response ''world''], None))
        (Inr (text_response ''unused''))) = [Gemini_generateContentStream ''UklGR'']"
    using c by (auto simp: processAudioStream_def stream_loop_eq no_content_iff)
  from audio_stream_fallback[of "[text_response []]" "''UklGR''" "Inr (text_response ''Use a stack.'')"]
       audio_stream_fallback[of "[text_response ''Hello '', text_response [], text_response ''world'']"
          "''UklGR''" "Inr (text_response ''unused'')"]
       n c r m cm1 cm2
  show ?thesis by (auto intro!: stream_run.equality)
qed

text \<open>
  C8 as stated fails: an empty stream followed by a fallback response whose text is empty
  calls the chunk callback not once but never (\<^verbatim>\<open>if (text) onChunk(text)\<close>).
\<close>

theorem empty_fallback_text_delivers_no_chunk:
  "\<not> (\<forall>chunks a fallbackResponse. no_content chunks \<longrightarrow>
         on_chunk (processAudioStream True a (Inr (chunks, None)) (Inr fallbackResponse))
           = [response_text fallbackResponse])"
proof
  assume h: "\<forall>chunks a fallbackResponse. no_content chunks \<longrightarrow>
         on_chunk (processAudioStream True a (Inr (chunks, None)) (Inr fallbackResponse))
           = [response_text fallbackResponse]"
  have "no_content []" by (simp add: no_content_def)
  with h have "on_chunk (processAudioStream True ''UklGR'' (Inr ([], None)) (Inr (text_response [])))
           = [response_text (text_response [])]" by blast
  then show False
    by (simp add: processAudioStream_def response_text_def first_part_text_def text_response_def)
qed

subsection \<open>A recording that came out empty\<close>

lemma toggle_stop_failed:
  assumes "isRecording (audioRecorderService st)" "file_missing_or_empty (recorder_answers env)"
    and "close_after_kill (recorder_answers env) \<or> recordingProcess (audioRecorderService st) = None"
  shows "\<exists>m. stopRecording (recorder_answers env) (audioRecorderService st)
       = (Some (Inl (Error (''Failed to stop recording: Error: Recording file was not created properly: '' @ m))),
          (audioRecorderService st)\<lparr>isRecording := False, recordingProcess := None\<rparr>)
     \<and> handleToggleRecording env st
       = (Some (),
          send (Recording_error (''Failed to stop recording: Error: Recording file was not created properly: '' @ m))
            (st\<lparr>audioRecorderService := (audioRecorderService st)\<lparr>isRecording := False, recordingProcess := None\<rparr>\<rparr>))"
proof -
  from stop_fails[OF assms] obtain m where
    m: "stopRecording (recorder_answers env) (audioRecorderService st)
       = (Some (Inl (Error (''Failed to stop recording: Error: Recording file was not created properly: '' @ m))),
          (audioRecorderService st)\<lparr>isRecording := False, recordingProcess := None\<rparr>)" by blast
  with assms(1) have "handleToggleRecording env st
       = (Some (),
          send (Recording_error (''Failed to stop recording: Error: Recording file was not created properly: '' @ m))
            (st\<lparr>audioRecorderService := (audioRecorderService st)\<lparr>isRecording := False, recordingProcess := None\<rparr>\<rparr>))"
    by (simp add: handleToggleRecording_def toggleRecording_def message_text_def)
  with m show ?thesis by blast
qed

text \<open>
  When the subprocess closes on the signal (or the recorder holds none), a stop that
  finds the output file missing or empty throws ``Failed to stop recording: Error:
  Recording file was not created properly: ...'', and \<^verbatim>\<open>handleToggleRecording\<close> sends exactly
  one event, \<^verbatim>\<open>recording-error\<close> with that message: no \<^verbatim>\<open>audio-processing-started\<close>, and no
  call to a provider.
\<close>

lemma empty_recording_is_reported_when_tool_closes:
  assumes "isRecording (audioRecorderService st)"
    and "file_missing_or_empty (recorder_answers env)"
    and "close_after_kill (recorder_answers env) \<or> recordingProcess (audioRecorderService st) = None"
  shows "\<exists>m. fst (stopRecording (recorder_answers env) (audioRecorderService st))
           = Some (Inl (Error (''Failed to stop recording: Error: Recording file was not created properly: '' @ m)))
       \<and> fst (handleToggleRecording env st) = Some ()
       \<and> sent (snd (handleToggleRecording env st))
           = sent st @ [Recording_error
               (''Failed to stop recording: Error: Recording file was not created properly: '' @ m)]
       \<and> provider_calls (snd (handleToggleRecording env st)) = provider_calls st
       \<and> \<not> isRecording (audioRecorderService (snd (handleToggleRecording env st)))"
proof -
  from toggle_stop_failed[OF assms] obtain m where
    "stopRecording (recorder_answers env) (audioRecorderService st)
       = (Some (Inl (Error (''Failed to stop recording: Error: Recording file was not created properly: '' @ m))),
          (audioRecorderService st)\<lparr>isRecording := False, recordingProcess := None\<rparr>)"
    "handleToggleRecording env st
       = (Some (),
          send (Recording_error (''Failed to stop recording: Error: Recording file was not created properly: '' @ m))
            (st\<lparr>audioRecorderService := (audioRecorderService st)\<lparr>isRecording := False, recordingProcess := None\<rparr>\<rparr>))"
    by blast
  then show ?thesis by (auto simp: send_def)
qed

text \<open>Whatever the subprocess does, a stop that finds the file missing or empty starts no
  audio job: nothing but a \<^verbatim>\<open>recording-error\<close> is ever sent, and no provider is called.\<close>

lemma empty_recording_starts_no_audio_job:
  assumes "isRecording (audioRecorderService st)"
    and "file_missing_or_empty (recorder_answers env)"
  shows "Audio_processing_started \<notin> set (drop (length (sent st)) (sent (snd (handleToggleRecording env st))))
       \<and> provider_calls (snd (handleToggleRecording env st)) = provider_calls st
       \<and> \<not> isRecording (audioRecorderService (snd (handleToggleRecording env st)))"
  using assms
  by (auto simp: handleToggleRecording_def toggleRecording_def stopRecording_def Let_def
        verify_recording_def file_missing_or_empty_def send_def
      split: sum.splits option.splits if_splits)

lemma recording_main_recording: "isRecording (audioRecorderService recording_main)"
  by (simp add: recording_main_def startRecording_def sox_found new_AudioRecorderService_def)

lemma recording_main_process: "recordingProcess (audioRecorderService recording_main) \<noteq> None"
  by (simp add: recording_main_def startRecording_def sox_found new_AudioRecorderService_def)

lemma empty_file_is_reported:
  "fst (handleToggleRecording (audio_answers (sox_env (Inr 0))) recording_main) = Some ()"
  "sent (snd (handleToggleRecording (audio_answers (sox_env (Inr 0))) recording_main))
     = [Recording_error ''Failed to stop recording: Error: Recording file was not created properly: Error: Recording file is empty'']"
  using recording_main_recording recording_main_process
  by (auto simp: handleToggleRecording_def toggleRecording_def stopRecording_def verify_recording_def
        audio_answers_def stat_sox close_sox Let_def error_toString_def message_text_def send_def
        recording_main_def initial_main_def initialise_service_def gemini_config_def
      split: option.splits)

text \<open>
  C7. The recording tool was started and has exited without writing the file (the
  environment \<open>sox_exited\<close>); the toggle then stops the recording. The output file is
  missing, yet the stop does not fail: its promise never settles, because the \<^verbatim>\<open>'close'\<close>
  it waits for was emitted before the listener was attached. \<^verbatim>\<open>handleToggleRecording\<close>
  stays suspended: no \<^verbatim>\<open>recording-error\<close> is sent, nor any other event, and no provider is
  called; the recorder is left idle.
\<close>

theorem stop_after_tool_exit_reports_nothing:
  "isRecording (audioRecorderService recording_main)
   \<and> file_missing_or_empty sox_exited
   \<and> fst (stopRecording sox_exited (audioRecorderService recording_main)) = None
   \<and> handleToggleRecording (audio_answers sox_exited) recording_main
       = (None, recording_main\<lparr>audioRecorderService :=
                  (audioRecorderService recording_main)\<lparr>isRecording := False\<rparr>\<rparr>)
   \<and> sent (snd (handleToggleRecording (audio_answers sox_exited) recording_main)) = []
   \<and> provider_calls (snd (handleToggleRecording (audio_answers sox_exited) recording_main)) = []"
proof -
  have f: "file_missing_or_empty sox_exited"
    by (simp add: file_missing_or_empty_def sox_exited_def sox_env_def)
  have c: "\<not> close_after_kill sox_exited"
    by (simp add: sox_exited_def)
  have h: "stopRecording sox_exited (audioRecorderService recording_main)
      = (None, (audioRecorderService recording_main)\<lparr>isRecording := False\<rparr>)"
    by (rule stop_hangs[OF recording_main_recording recording_main_process c])
  then have t: "handleToggleRecording (audio_answers sox_exited) recording_main
       = (None, recording_main\<lparr>audioRecorderService :=
                  (audioRecorderService recording_main)\<lparr>isRecording := False\<rparr>\<rparr>)"
    using recording_main_recording
    by (simp add: handleToggleRecording_def toggleRecording_def audio_answers_def)
  have s: "sent recording_main = []" "provider_calls recording_main = []"
    by (simp_all add: recording_main_def initial_main_def initialise_service_def
          gemini_config_def)
  from recording_main_recording f h t s show ?thesis by simp
qed

text \<open>For comparison: the same stop with a file of 44 bytes starts the audio pipeline.\<close>

lemma good_recording_starts_audio_job:
  "sent (snd (handleToggleRecording (audio_answers (sox_env (Inr 44))) recording_main))
     = [Recording_toggled False ''/home/u/.config/app/recordings/question-1.wav'',
        Audio_processing_started, Audio_stream_chunk ''Hello '', Audio_stream_chunk ''world'',
        Audio_processing_complete]"
  by (simp add: handleToggleRecording_def toggleRecording_def recording_main_def startRecording_def
      sox_found new_AudioRecorderService_def stopRecording_def verify_recording_def audio_answers_def
      Let_def getRecordingStatus_def question_path_sox handleProcessAudio_def initial_main_def
      try_catch_finally_def process_audio_try_def send_def audioFileToBase64_def gemini_config_def
      processAudioStream_def stream_loop_eq List.map_filter_simps chunk_text_def first_part_text_def
      text_response_def stat_sox close_sox initialise_service_def split: option.splits)

section \<open>Facts about the image-solving adapters\<close>

lemma match_braces_Some:
  assumes "match_braces s = Some m"
  shows "\<exists>pre mid post. s = pre @ CHR ''{'' # mid @ CHR ''}'' # post
           \<and> CHR ''{'' \<notin> set pre \<and> CHR ''}'' \<notin> set post \<and> m = CHR ''{'' # mid @ [CHR ''}'']"
proof -
  let ?P = "\<lambda>c. c \<noteq> CHR ''{''" and ?Q = "\<lambda>c. c \<noteq> CHR ''}''"
  from assms obtain b u e v where
    bu: "dropWhile ?P s = b # u" and ev: "dropWhile ?Q (rev u) = e # v" and m: "m = b # rev (e # v)"
    by (auto simp: match_braces_def split: list.splits)
  from bu have b: "b = CHR ''{''" using hd_dropWhile[of ?P s] by auto
  from ev have e: "e = CHR ''}''" using hd_dropWhile[of ?Q "rev u"] by auto
  have s: "s = takeWhile ?P s @ b # u" using bu takeWhile_dropWhile_id[of ?P s] by simp
  have "rev u = takeWhile ?Q (rev u) @ e # v"
    using ev takeWhile_dropWhile_id[of ?Q "rev u"] by simp
  then have "rev (rev u) = rev (takeWhile ?Q (rev u) @ e # v)" by simp
  then have u: "u = rev v @ e # rev (takeWhile ?Q (rev u))" by simp
  have p1: "CHR ''{'' \<notin> set (takeWhile ?P s)" using set_takeWhileD[of "CHR ''{''" ?P s] by auto
  have p2: "CHR ''}'' \<notin> set (rev (takeWhile ?Q (rev u)))"
    using set_takeWhileD[of "CHR ''}''" ?Q "rev u"] by auto
  from s u have "s = takeWhile ?P s @ b # rev v @ e # rev (takeWhile ?Q (rev u))" by simp
  with b e m p1 p2 have
    "s = takeWhile ?P s @ CHR ''{'' # rev v @ CHR ''}'' # rev (takeWhile ?Q (rev u))
       \<and> CHR ''{'' \<notin> set (takeWhile ?P s)
       \<and> CHR ''}'' \<notin> set (rev (takeWhile ?Q (rev u)))
       \<and> m = CHR ''{'' # rev v @ [CHR ''}'']"
    by simp
  then show ?thesis by blast
qed

lemma match_braces_intro:
  assumes "CHR ''{'' \<notin> set pre" "CHR ''}'' \<notin> set post"
  shows "match_braces (pre @ CHR ''{'' # mid @ CHR ''}'' # post) = Some (CHR ''{'' # mid @ [CHR ''}''])"
proof -
  let ?P = "\<lambda>c. c \<noteq> CHR ''{''" and ?Q = "\<lambda>c. c \<noteq> CHR ''}''"
  have 1: "dropWhile ?P (pre @ CHR ''{'' # mid @ CHR ''}'' # post) = CHR ''{'' # mid @ CHR ''}'' # post"
    using assms(1) by (auto simp: dropWhile_append3 dropWhile_eq_Nil_conv)
  have 2: "dropWhile ?Q (rev post @ CHR ''}'' # rev mid) = CHR ''}'' # rev mid"
    using assms(2) by (auto simp: dropWhile_append3 dropWhile_eq_Nil_conv)
  show ?thesis by (simp add: match_braces_def 1 2)
qed

lemma match_braces_iff:
  "match_braces s = Some m \<longleftrightarrow>
     (\<exists>pre mid post. s = pre @ CHR ''{'' # mid @ CHR ''}'' # post
        \<and> CHR ''{'' \<notin> set pre \<and> CHR ''}'' \<notin> set post \<and> m = CHR ''{'' # mid @ [CHR ''}''])"
  using match_braces_Some[of s m] match_braces_intro by blast

lemma processImages_text_Inr:
  "processImages_text parse txt = Inr v \<longleftrightarrow>
     (\<exists>span p. match_braces txt = Some span \<and> parse span = Inr p \<and> p \<noteq> JNull
        \<and> js_truthy (js_field p ''approach'') \<and> js_truthy (js_field p ''code'')
        \<and> js_truthy (js_field p ''timeComplexity'') \<and> js_truthy (js_field p ''spaceComplexity'')
        \<and> v = JObject [(''approach'', the (js_field p ''approach'')),
                        (''code'', the (js_field p ''code'')),
                        (''timeComplexity'', the (js_field p ''timeComplexity'')),
                        (''spaceComplexity'', the (js_field p ''spaceComplexity''))])"
  by (auto simp: processImages_text_def split: option.splits sum.splits)

lemma processImages_Inr:
  "processImages parse True (Inr response) = Inr v \<longleftrightarrow>
     processImages_text parse (response_text response) = Inr v"
  by (auto simp: processImages_def split: sum.splits)

lemma processImages_Inl:
  "processImages parse genAI reply = Inl e \<Longrightarrow> \<exists>m. e = Error m"
  by (auto simp: processImages_def processImages_catch_def genAI_not_initialized_def
           split: sum.splits if_splits)

lemma example_object_parses: "JSON_parse example_object = Some example_solution"
  by (simp add: JSON_parse_def skip_ws_def json_ws_def example_object_def example_solution_def)

lemma example_text_span: "match_braces example_text = Some example_object"
  by (simp add: match_braces_def example_text_def example_object_def)

lemma gemini_on_example:
  "processImages JSON_parse_or_throw True (Inr (text_response example_text)) = Inr example_solution"
  by (simp add: processImages_def processImages_text_def response_text_def first_part_text_def
        text_response_def example_text_span JSON_parse_or_throw_def example_object_parses)
     (simp add: example_solution_def)

lemma example_text_not_json: "JSON_parse example_text = None"
  by (simp add: JSON_parse_def skip_ws_def json_ws_def example_object_def example_text_def
        parse_number_def span_digits_def is_digit_def)

lemma braces_after_span:
  "match_braces braces_after_text = Some (example_object @ '' Here {}'')"
  by (simp add: match_braces_def braces_after_text_def example_object_def)

lemma braces_after_balanced:
  "spec_first_balanced_span braces_after_text = Some example_object"
  by (simp add: spec_first_balanced_span_def braces_after_text_def example_object_def)

lemma braces_after_not_json: "JSON_parse (example_object @ '' Here {}'') = None"
  by (simp add: JSON_parse_def skip_ws_def json_ws_def example_object_def)

lemma openai_on_example:
  "processScreenshots JSON_parse_or_throw True (Inr (Some example_text))
     = Inl (Error ''Unexpected token in JSON'')"
  by (simp add: processScreenshots_def JSON_parse_or_throw_def example_text_not_json)
     (simp add: example_text_def example_object_def)

lemma gemini_on_braces_after:
  "processImages JSON_parse_or_throw True (Inr (text_response braces_after_text))
     = Inl (Error ''Gemini processing failed: Unexpected token in JSON'')"
  by (simp add: processImages_def processImages_text_def response_text_def first_part_text_def
        text_response_def braces_after_span JSON_parse_or_throw_def braces_after_not_json
        processImages_catch_def message_text_def)

text \<open>The OpenAI-style adapter does not look at the fields: an empty object is a result.\<close>

lemma openai_accepts_object_without_fields:
  "processScreenshots JSON_parse_or_throw True (Inr (Some ''{}'')) = Inr (JObject [])"
  by (simp add: processScreenshots_def JSON_parse_or_throw_def JSON_parse_def skip_ws_def
        json_ws_def)

text \<open>
  C5 (as amended). The Gemini-style adapter takes the span from the first opening brace of
  the raw text to its last closing brace and parses it; with the client initialised it
  succeeds exactly when there is such a span, the span parses, and \<open>approach\<close>, \<open>code\<close>,
  \<open>timeComplexity\<close> and \<open>spaceComplexity\<close> of the parsed value are all truthy (a string is
  truthy when it is not empty), and it then returns exactly these four fields; every
  failure is an \<^verbatim>\<open>Error\<close>. The OpenAI-style adapter parses the whole message
  content, an empty content as \<^verbatim>\<open>{}\<close>, and extracts no span. The Gemini-style adapter turns
  the example text into the example solution.
\<close>

theorem image_adapters_contract:
  "(match_braces raw = Some span \<longleftrightarrow>
      (\<exists>pre mid post. raw = pre @ CHR ''{'' # mid @ CHR ''}'' # post
         \<and> CHR ''{'' \<notin> set pre \<and> CHR ''}'' \<notin> set post \<and> span = CHR ''{'' # mid @ [CHR ''}'']))
   \<and> (processImages parse True (Inr response) = Inr v \<longleftrightarrow>
      (\<exists>sp p. match_braces (response_text response) = Some sp \<and> parse sp = Inr p \<and> p \<noteq> JNull
         \<and> js_truthy (js_field p ''approach'') \<and> js_truthy (js_field p ''code'')
         \<and> js_truthy (js_field p ''timeComplexity'') \<and> js_truthy (js_field p ''spaceComplexity'')
         \<and> v = JObject [(''approach'', the (js_field p ''approach'')),
                         (''code'', the (js_field p ''code'')),
                         (''timeComplexity'', the (js_field p ''timeComplexity'')),
                         (''spaceComplexity'', the (js_field p ''spaceComplexity''))]))
   \<and> (\<forall>e. processImages parse genAI reply = Inl e \<longrightarrow> (\<exists>m. e = Error m))
   \<and> (js_truthy (Some (JString str)) \<longleftrightarrow> str \<noteq> []) \<and> \<not> js_truthy None
   \<and> processScreenshots parse True (Inr messageContent)
        = parse (case messageContent of None \<Rightarrow> ''{}'' | Some c \<Rightarrow> if c = [] then ''{}'' else c)
   \<and> processImages JSON_parse_or_throw True (Inr (text_response example_text))
        = Inr example_solution"
  using match_braces_iff[of raw span] processImages_Inr[of parse response v]
        processImages_text_Inr[of parse "response_text response" v]
        processImages_Inl[of parse genAI reply] gemini_on_example
  by (simp add: processScreenshots_def)

theorem image_adapters_contract_witness:
  "match_braces example_text = Some example_object
   \<and> (\<exists>pre mid post. example_text = pre @ CHR ''{'' # mid @ CHR ''}'' # post
         \<and> CHR ''{'' \<notin> set pre \<and> CHR ''}'' \<notin> set post
         \<and> example_object = CHR ''{'' # mid @ [CHR ''}''])
   \<and> processImages JSON_parse_or_throw True (Inr (text_response example_text))
        = Inr example_solution
   \<and> (\<exists>sp p. match_braces (response_text (text_response example_text)) = Some sp
         \<and> JSON_parse_or_throw sp = Inr p
         \<and> js_truthy (js_field p ''approach'') \<and> js_truthy (js_field p ''code'')
         \<and> js_truthy (js_field p ''timeComplexity'')
         \<and> js_truthy (js_field p ''spaceComplexity''))"
  using image_adapters_contract
          [of example_text example_object JSON_parse_or_throw "text_response example_text"
              example_solution True "Inr (text_response example_text)" "[]" None]
        example_text_span
  by blast

text \<open>
  C5 as stated fails. In \<open>braces_after_text\<close> the first balanced span is the example object,
  which parses to the example solution, but the Gemini-style adapter takes the span up to
  the last closing brace of the text and fails; and the OpenAI-style adapter, which
  extracts no span, fails on the example text of the claim itself.
\<close>

theorem adapters_differ_from_first_balanced_span:
  "spec_first_balanced_span braces_after_text = Some example_object
   \<and> JSON_parse_or_throw example_object = Inr example_solution
   \<and> match_braces braces_after_text \<noteq> spec_first_balanced_span braces_after_text
   \<and> isl (processImages JSON_parse_or_throw True (Inr (text_response braces_after_text)))
   \<and> isl (processScreenshots JSON_parse_or_throw True (Inr (Some example_text)))"
  by (simp add: braces_after_balanced braces_after_span JSON_parse_or_throw_def
        example_object_parses gemini_on_braces_after openai_on_example)

end
